theory Spec2Isabelle
  imports Main "HOL-Library.Sublist"
begin

section \<open>Strings: the QString and QStringList operations the manager calls\<close>

text \<open>
  A QString is modelled as a \<^typ>\<open>string\<close>. \<open>contains\<close>, \<open>startsWith\<close> and
  \<open>endsWith\<close> are the contiguous-substring, prefix and suffix tests; \<open>mid n\<close> drops the
  first \<open>n\<close> characters (and is empty when the text is shorter).
\<close>

definition contains :: "string \<Rightarrow> string \<Rightarrow> bool" where
  "contains s p = sublist p s"

definition startsWith :: "string \<Rightarrow> string \<Rightarrow> bool" where
  "startsWith s p = prefix p s"

definition endsWith :: "string \<Rightarrow> string \<Rightarrow> bool" where
  "endsWith s p = suffix p s"

definition mid :: "nat \<Rightarrow> string \<Rightarrow> string" where
  "mid n s = drop n s"

text \<open>\<open>QString::split\<close> with a one-character separator keeps empty parts, so the result
  is never the empty list.\<close>

fun split_str :: "char \<Rightarrow> string \<Rightarrow> string list" where
  "split_str c [] = [[]]"
| "split_str c (x # xs) =
     (if x = c then [] # split_str c xs
      else (case split_str c xs of [] \<Rightarrow> [[x]] | w # ws \<Rightarrow> (x # w) # ws))"

fun join_str :: "string \<Rightarrow> string list \<Rightarrow> string" where
  "join_str sep [] = []"
| "join_str sep [x] = x"
| "join_str sep (x # y # ys) = x @ sep @ join_str sep (y # ys)"

text \<open>\<open>QString::replace\<close>: every occurrence of the pattern \<open>pat\<close>, scanning from the
  left, is replaced by \<open>rep\<close>; an empty pattern puts \<open>rep\<close> around every character.\<close>

function replace_str :: "string \<Rightarrow> string \<Rightarrow> string \<Rightarrow> string" where
  "replace_str pat rep s =
     (if pat = [] then rep @ concat (map (\<lambda>c. c # rep) s)
      else if s = [] then []
      else if prefix pat s then rep @ replace_str pat rep (drop (length pat) s)
      else hd s # replace_str pat rep (tl s))"
  by pat_completeness auto
termination
  by (relation "measure (\<lambda>(pat, rep, s). length s)") auto

declare replace_str.simps [simp del]

section \<open>QUrl as the manager observes it\<close>

text \<open>
  The handlers read a QUrl through \<open>path()\<close>, \<open>queryItems()\<close>, \<open>hasQueryItem\<close> and
  \<open>queryItemValue\<close>; the outbound side builds one from a base text with \<open>addQueryItem\<close>
  and reads it back with \<open>toEncoded()\<close>. \<open>origin\<close> holds scheme and authority and is
  empty for the relative references \<open>parseTomahawkLink\<close> builds.
\<close>

record qurl =
  origin :: string
  path :: string
  queryItems :: "(string \<times> string) list"

definition hasQueryItem :: "qurl \<Rightarrow> string \<Rightarrow> bool" where
  "hasQueryItem u k = (k \<in> set (map fst (queryItems u)))"

text \<open>\<open>queryItemValue\<close> returns the value of the first item with the key, and the empty
  text when there is none.\<close>

definition queryItemValue :: "qurl \<Rightarrow> string \<Rightarrow> string" where
  "queryItemValue u k = (case map_of (queryItems u) k of None \<Rightarrow> [] | Some v \<Rightarrow> v)"

definition addQueryItem :: "string \<Rightarrow> string \<Rightarrow> qurl \<Rightarrow> qurl" where
  "addQueryItem k v u = u\<lparr>queryItems := queryItems u @ [(k, v)]\<rparr>"

subsection \<open>Percent-encoding\<close>

definition unreserved :: "char \<Rightarrow> bool" where
  "unreserved c =
     (c \<in> set ''ABCDEFGHIJKLMNOPQRSTUVWXYZabcdefghijklmnopqrstuvwxyz0123456789-._~'')"

definition hexDigit :: "nat \<Rightarrow> char" where
  "hexDigit n = ''0123456789ABCDEF'' ! (n mod 16)"

text \<open>\<open>QByteArray::toPercentEncoding(exclude, include)\<close>: a byte stays when it is unreserved
  or excluded, and not forced by \<open>include\<close>; every other byte becomes \<open>%XX\<close>.\<close>

definition percentByte :: "string \<Rightarrow> string \<Rightarrow> char \<Rightarrow> string" where
  "percentByte exclude incl c =
     (if (unreserved c \<or> c \<in> set exclude) \<and> c \<notin> set incl then [c]
      else [CHR ''%'', hexDigit ((of_char c :: nat) div 16), hexDigit ((of_char c :: nat) mod 16)])"

definition toPercentEncoding :: "string \<Rightarrow> string \<Rightarrow> string \<Rightarrow> string" where
  "toPercentEncoding s exclude incl = concat (map (percentByte exclude incl) s)"

text \<open>The characters QUrl leaves alone inside a query, and the two delimiters
  \<open>addQueryItem\<close> always escapes in keys and values.\<close>

definition queryExcludeChars :: string where
  "queryExcludeChars = [CHR ''!'', CHR ''$'', CHR ''&'', CHR 0x27, CHR ''('', CHR '')'',
     CHR ''*'', CHR ''+'', CHR '','', CHR '';'', CHR ''='', CHR '':'', CHR ''@'', CHR ''/'',
     CHR ''?'']"

definition encodeQueryPart :: "string \<Rightarrow> string" where
  "encodeQueryPart t = toPercentEncoding t queryExcludeChars ''=&''"

definition encodedQuery :: "(string \<times> string) list \<Rightarrow> string" where
  "encodedQuery items =
     join_str ''&'' (map (\<lambda>(k, v). encodeQueryPart k @ ''='' @ encodeQueryPart v) items)"

definition toEncoded :: "qurl \<Rightarrow> string" where
  "toEncoded u =
     origin u @ path u @ (if queryItems u = [] then [] else ''?'' @ encodedQuery (queryItems u))"

subsection \<open>Reading a relative reference\<close>

definition hexValue :: "char \<Rightarrow> nat option" where
  "hexValue c =
     (let n = (of_char c :: nat) in
      if 48 \<le> n \<and> n \<le> 57 then Some (n - 48)
      else if 65 \<le> n \<and> n \<le> 70 then Some (n - 55)
      else if 97 \<le> n \<and> n \<le> 102 then Some (n - 87)
      else None)"

fun fromPercentEncoding :: "string \<Rightarrow> string" where
  "fromPercentEncoding (c # h # l # cs) =
     (if c = CHR ''%'' then
        (case (hexValue h, hexValue l) of
           (Some a, Some b) \<Rightarrow> char_of (16 * a + b) # fromPercentEncoding cs
         | _ \<Rightarrow> c # fromPercentEncoding (h # l # cs))
      else c # fromPercentEncoding (h # l # cs))"
| "fromPercentEncoding cs = cs"

definition parseQueryItem :: "string \<Rightarrow> string \<times> string" where
  "parseQueryItem t =
     (fromPercentEncoding (takeWhile (\<lambda>c. c \<noteq> CHR ''='') t),
      fromPercentEncoding (drop 1 (dropWhile (\<lambda>c. c \<noteq> CHR ''='') t)))"

text \<open>
  \<open>QUrl::fromEncoded\<close> on the text after the scheme, a relative reference
  \<open>path?key=value&key=value#fragment\<close>: the fragment, from the first \<open>#\<close> on, is cut
  off; the path is what stands before the first \<open>?\<close>, the query items are the
  \<open>&\<close>-separated pairs after it, each split at its first \<open>=\<close>, and path, keys and
  values are percent-decoded. (References that carry a scheme or an authority of their
  own are outside this model.)
\<close>

definition fromEncoded :: "string \<Rightarrow> qurl" where
  "fromEncoded t =
     (let r = takeWhile (\<lambda>c. c \<noteq> CHR ''#'') t;
          p = takeWhile (\<lambda>c. c \<noteq> CHR ''?'') r;
          q = drop 1 (dropWhile (\<lambda>c. c \<noteq> CHR ''?'') r)
      in \<lparr>origin = [], path = fromPercentEncoding p,
          queryItems = (if q = [] then [] else map parseQueryItem (split_str CHR ''&'' q))\<rparr>)"

subsection \<open>URLs typed by a user\<close>

definition isSpace :: "char \<Rightarrow> bool" where
  "isSpace c = (c \<in> set [CHR '' '', CHR 0x09, CHR 0x0A, CHR 0x0B, CHR 0x0C, CHR 0x0D])"

definition trimmed :: "string \<Rightarrow> string" where
  "trimmed s = rev (dropWhile isSpace (rev (dropWhile isSpace s)))"

definition isUpper :: "char \<Rightarrow> bool" where
  "isUpper c = (c \<in> set ''ABCDEFGHIJKLMNOPQRSTUVWXYZ'')"

definition isAlpha :: "char \<Rightarrow> bool" where
  "isAlpha c = (isUpper c \<or> c \<in> set ''abcdefghijklmnopqrstuvwxyz'')"

definition isDigit :: "char \<Rightarrow> bool" where
  "isDigit c = (c \<in> set ''0123456789'')"

definition toLower :: "string \<Rightarrow> string" where
  "toLower s = map (\<lambda>c. if isUpper c then char_of ((of_char c :: nat) + 32) else c) s"

text \<open>The scheme of a URL text: the letters, digits, \<open>+\<close>, \<open>-\<close> and \<open>.\<close> that stand before
  its first colon, when there is a colon and they begin with a letter.\<close>

definition schemeOf :: "string \<Rightarrow> string option" where
  "schemeOf t =
     (let sch = takeWhile (\<lambda>c. c \<noteq> CHR '':'') t in
      if sch \<noteq> [] \<and> length sch < length t \<and> isAlpha (hd sch)
         \<and> list_all (\<lambda>c. isAlpha c \<or> isDigit c \<or> c \<in> set ''+-.'') sch
      then Some sch else None)"

text \<open>Whether \<open>http://\<close> put in front of the text gives a URL with a port: the authority
  (up to the first \<open>/\<close>, \<open>?\<close> or \<open>#\<close>) has digits, and only digits, after its first colon.\<close>

definition prependedHasPort :: "string \<Rightarrow> bool" where
  "prependedHasPort t =
     (let authority = takeWhile (\<lambda>c. c \<notin> set ''/?#'') t;
          port = drop 1 (dropWhile (\<lambda>c. c \<noteq> CHR '':'') authority)
      in port \<noteq> [] \<and> list_all isDigit port)"

text \<open>
  \<open>QUrl::fromUserInput\<close>, the URL written as text. The input is trimmed; an absolute
  path becomes a \<open>file://\<close> URL; a text that has a scheme, something after it, and no
  port when read as \<open>host:port\<close> is taken as it is; any other non-empty text gets
  \<open>http://\<close> in front, or \<open>ftp://\<close> when it begins with \<open>ftp.\<close>; the empty text gives the
  invalid, empty URL. (Absolute paths are those of a Unix system, and the validity
  checks of the tolerant parser are left out.)
\<close>

definition fromUserInput :: "string \<Rightarrow> string" where
  "fromUserInput userInput =
     (let t = trimmed userInput in
      if startsWith t ''/'' then ''file://'' @ t
      else if (case schemeOf t of None \<Rightarrow> False | Some sch \<Rightarrow> length sch + 1 < length t)
              \<and> \<not> prependedHasPort t
      then t
      else if t \<noteq> [] then
        (if toLower (takeWhile (\<lambda>c. c \<noteq> CHR ''.'') t) = ''ftp'' then ''ftp://'' else ''http://'')
          @ t
      else [])"

text \<open>\<open>path()\<close> of such a URL: query and fragment are cut off, then the scheme, then an
  authority that follows \<open>//\<close>.\<close>

definition urlPath :: "string \<Rightarrow> string" where
  "urlPath t =
     (let body = takeWhile (\<lambda>c. c \<noteq> CHR ''?'' \<and> c \<noteq> CHR ''#'') t;
          rest = (case schemeOf body of None \<Rightarrow> body | Some sch \<Rightarrow> drop (length sch + 1) body)
      in if startsWith rest ''//'' then dropWhile (\<lambda>c. c \<noteq> CHR ''/'') (drop 2 rest) else rest)"

text \<open>\<open>QFileInfo::baseName\<close>: the file name, what follows the last \<open>/\<close>, up to its first
  dot.\<close>

definition baseName :: "string \<Rightarrow> string" where
  "baseName p = takeWhile (\<lambda>c. c \<noteq> CHR ''.'') (last (split_str CHR ''/'' p))"

section \<open>Queries, controls, and what the manager does to its collaborators\<close>

text \<open>A \<open>query_ptr\<close> points to a query object; \<open>q_id\<close> is the identity of that object
  (what \<open>data()\<close> and \<open>sender()\<close> compare).\<close>

record query =
  q_id :: nat
  q_artist :: string
  q_track :: string
  q_album :: string
  q_resultHint :: string

text \<open>The enumerators of \<open>Echonest::DynamicPlaylist\<close> that the manager names. Their
  numbering is declared outside this source, so a match value keeps the enumerator and
  the offset the source adds to it: \<open>EnumPlus MinTempo (- 1)\<close> is
  \<open>(int)MinTempo + extra\<close> with \<open>extra = -1\<close>.\<close>

datatype enumerator =
    ArtistRadioType | ArtistType | ArtistDescriptionType | SongRadioType
  | Variety | Key | Mode | Mood | Style
  | MinTempo | MaxTempo | MinDuration | MaxDuration | MinLoudness | MaxLoudness
  | MinDanceability | MaxDanceability | MinEnergy | MaxEnergy
  | ArtistMinFamiliarity | ArtistMaxFamiliarity
  | ArtistMinHotttnesss | ArtistMaxHotttnesss
  | SongMinHotttnesss | SongMaxHotttnesss
  | ArtistMinLongitude | ArtistMaxLongitude
  | ArtistMinLatitude | ArtistMaxLatitude

datatype matchval = EnumPlus enumerator int

record dyncontrol =
  c_selectedType :: string
  c_input :: string
  c_match :: matchval

datatype generatorMode = Static | OnDemand

record dynplaylist =
  pl_title :: string
  pl_type :: string
  pl_mode :: generatorMode
  pl_controls :: "dyncontrol list"

datatype logmsg =
    ParsingLinkCommand string
  | NotATomahawkLink
  | CommandNotKnown string
  | NoSpecificPlaylistCommand
  | NewPlaylistNeedsTitle
  | AddNeedsPlaylistidTrackArtist
  | NoSpecificCollectionCommand
  | NoSpecificTypeToOpen
  | NoSpecificQueueCommand
  | OnlyQueueAddSupported
  | NoSpecificStationCommand
  | StationCreateNeedsTitleAndType
  | NoSpecificPlayCommand
  | NoSpecificBookmarkCommand

text \<open>
  One constructor per call the manager makes on a collaborator. \<open>tDebug\<close> output is not
  recorded, the random \<open>uuid()\<close> arguments are left out, and a URL argument is given
  as text. What the loaders, parsers and the pipeline do later arrives through slots and
  is not part of the call.
\<close>

datatype effect =
    Log logmsg
  | XSPFLoad "string option" string
  | JSPFLoad string
  | PlaylistCreate string
  | ViewShowPlaylist string
  | DynamicPlaylistCreate string generatorMode string
  | CreateNewRevision string "dyncontrol list" bool
  | PipelineResolve query
  | ConnectResolvingFinished nat
  | QueueAppend query
  | ShowQueue
  | ShowSuperCollection
  | SetFilter string
  | SpotifyParserToOpen string
  | SpotifyParserToPlay string
  | SpotifyParserTracks "string list"
  | RdioParserTracks "string list"
  | ShortenedLinkParserNew "string list"
  | AudioEnginePlay
  | CreateBookmarksPlaylist
  | ConnectBookmarkPlaylistCreated
  | BookmarksNewRevision "query list"
  | ConnectRevisionLoaded
  | ViewShowBookmarks

text \<open>
  The manager's members (\<open>m_waitingToPlay\<close>, \<open>m_waitingToBookmark\<close>, \<open>m_toShow\<close>), the
  calls it has made so far, the next fresh query identity, and the two facts it reads
  from its collaborators: whether the audio engine is playing and the entries of the
  bookmarks playlist (\<open>None\<close> while that playlist does not exist).
\<close>

record gam =
  m_waitingToPlay :: "query option"
  m_waitingToBookmark :: "query option"
  m_toShow :: bool
  effects :: "effect list"
  nextQuery :: nat
  isPlaying :: bool
  bookmarksPlaylist :: "query list option"

definition emit :: "effect \<Rightarrow> gam \<Rightarrow> gam" where
  "emit e s = s\<lparr>effects := effects s @ [e]\<rparr>"

definition tLog :: "logmsg \<Rightarrow> gam \<Rightarrow> gam" where
  "tLog m s = emit (Log m) s"

text \<open>\<open>Query::get\<close> makes a new query object.\<close>

definition Query_get :: "string \<Rightarrow> string \<Rightarrow> string \<Rightarrow> gam \<Rightarrow> query \<times> gam" where
  "Query_get artist title album s =
     (\<lparr>q_id = nextQuery s, q_artist = artist, q_track = title, q_album = album,
       q_resultHint = []\<rparr>,
      s\<lparr>nextQuery := Suc (nextQuery s)\<rparr>)"

definition setResultHint :: "string \<Rightarrow> query \<Rightarrow> query" where
  "setResultHint h q = (if h \<noteq> [] then q\<lparr>q_resultHint := h\<rparr> else q)"

section \<open>Outbound links\<close>

definition hostname :: string where
  "hostname = ''http://toma.hk''"

text \<open>\<open>openLink\<close>: the base text \<open>hostname()/open/track/\<close> and one query item for each of
  title, artist and album that is not empty.\<close>

definition openLink :: "string \<Rightarrow> string \<Rightarrow> string \<Rightarrow> qurl" where
  "openLink title artist album =
     (let link = \<lparr>origin = hostname, path = ''/open/track/'', queryItems = []\<rparr>;
          link = (if title \<noteq> [] then addQueryItem ''title'' title link else link);
          link = (if artist \<noteq> [] then addQueryItem ''artist'' artist link else link);
          link = (if album \<noteq> [] then addQueryItem ''album'' album link else link)
      in link)"

text \<open>The text \<open>copyToClipboard\<close> hands out: the encoded link with every single quote
  written as \<open>%27\<close>.\<close>

definition clipboardText :: "string \<Rightarrow> string \<Rightarrow> string \<Rightarrow> string" where
  "clipboardText title artist album =
     replace_str [CHR 0x27] ''%27'' (toEncoded (openLink title artist album))"

section \<open>Inbound commands\<close>

text \<open>\<open>url.path().split( "/" ).mid( 1 )\<close>, the rest of the command.\<close>

definition commandParts :: "qurl \<Rightarrow> string list" where
  "commandParts url = drop 1 (split_str CHR ''/'' (path url))"

definition handlePlaylistCommand :: "qurl \<Rightarrow> gam \<Rightarrow> bool \<times> gam" where
  "handlePlaylistCommand url s =
     (let parts = commandParts url in
      if parts = [] then (False, tLog NoSpecificPlaylistCommand s)
      else if hd parts = ''import'' then
        (if \<not> hasQueryItem url ''xspf'' then (False, s)
         else
           let title = (if hasQueryItem url ''title'' then queryItemValue url ''title'' else [])
           in (False, emit (XSPFLoad (Some title) (queryItemValue url ''xspf'')) s))
      else if hd parts = ''new'' then
        (if \<not> hasQueryItem url ''title'' then (False, tLog NewPlaylistNeedsTitle s)
         else (False, emit (ViewShowPlaylist (queryItemValue url ''title''))
                        (emit (PlaylistCreate (queryItemValue url ''title'')) s)))
      else if hd parts = ''add'' then
        (if \<not> hasQueryItem url ''playlistid'' \<or> \<not> hasQueryItem url ''title''
            \<or> \<not> hasQueryItem url ''artist''
         then (False, tLog AddNeedsPlaylistidTrackArtist s)
         else (False, s))
      else (False, s))"

definition handleCollectionCommand :: "qurl \<Rightarrow> gam \<Rightarrow> bool \<times> gam" where
  "handleCollectionCommand url s =
     (let parts = commandParts url in
      if parts = [] then (False, tLog NoSpecificCollectionCommand s)
      else (False, s))"

definition handleOpenTrack :: "query \<Rightarrow> gam \<Rightarrow> gam" where
  "handleOpenTrack q s =
     (let s1 = emit ShowQueue (emit (QueueAppend q) s) in
      if \<not> isPlaying s1
      then (emit (ConnectResolvingFinished (q_id q)) s1)\<lparr>m_waitingToPlay := Some q\<rparr>
      else s1)"

definition openSpotifyLink :: "string \<Rightarrow> gam \<Rightarrow> bool \<times> gam" where
  "openSpotifyLink link s = (True, emit (SpotifyParserToOpen link) s)"

text \<open>The loop of \<open>queueSpotify\<close>: every \<open>spotifyURL\<close> or \<open>spotifyURI\<close> item overwrites
  \<open>url\<close>.\<close>

fun scanSpotifyItems :: "(string \<times> string) list \<Rightarrow> string \<Rightarrow> string" where
  "scanSpotifyItems [] url = url"
| "scanSpotifyItems (pair # rest) url =
     (if fst pair = ''spotifyURL'' then scanSpotifyItems rest (snd pair)
      else if fst pair = ''spotifyURI'' then scanSpotifyItems rest (snd pair)
      else scanSpotifyItems rest url)"

definition queueSpotify :: "string list \<Rightarrow> (string \<times> string) list \<Rightarrow> gam \<Rightarrow> bool \<times> gam" where
  "queueSpotify parts items s =
     (let url = scanSpotifyItems items [] in
      if url = [] then (False, s) else (True, snd (openSpotifyLink url s)))"

text \<open>
  The loop that \<open>doQueueAdd\<close>, \<open>handlePlayCommand\<close> and \<open>handleBookmarkCommand\<close> each
  write out over the query items: \<open>title\<close>, \<open>artist\<close>, \<open>album\<close> and \<open>urlStr\<close> start
  empty, and an item whose key is one of the four assigns its value to that variable.
\<close>

record trackFields =
  f_title :: string
  f_artist :: string
  f_album :: string
  f_urlStr :: string

fun scanTrackItems :: "(string \<times> string) list \<Rightarrow> trackFields \<Rightarrow> trackFields" where
  "scanTrackItems [] f = f"
| "scanTrackItems (pair # rest) f =
     (if fst pair = ''title'' then scanTrackItems rest (f\<lparr>f_title := snd pair\<rparr>)
      else if fst pair = ''artist'' then scanTrackItems rest (f\<lparr>f_artist := snd pair\<rparr>)
      else if fst pair = ''album'' then scanTrackItems rest (f\<lparr>f_album := snd pair\<rparr>)
      else if fst pair = ''url'' then scanTrackItems rest (f\<lparr>f_urlStr := snd pair\<rparr>)
      else scanTrackItems rest f)"

definition noFields :: trackFields where
  "noFields = \<lparr>f_title = [], f_artist = [], f_album = [], f_urlStr = []\<rparr>"

text \<open>The second loop of \<open>doQueueAdd\<close>: items other than \<open>url\<close> are skipped, and the body
  returns true after the first \<open>url\<close> item, whether that one was local or not.\<close>

fun queueUrls :: "(string \<times> string) list \<Rightarrow> gam \<Rightarrow> bool \<times> gam" where
  "queueUrls [] s = (False, s)"
| "queueUrls (pair # rest) s =
     (if fst pair \<noteq> ''url'' then queueUrls rest s
      else
        let track = fromUserInput (snd pair) in
        if startsWith track ''file://'' then (True, s)
        else
          (case Query_get [] (baseName (urlPath track)) [] s of
             (q, s1) \<Rightarrow>
               let q = q\<lparr>q_resultHint := track\<rparr> in
               (True, emit ShowQueue (emit (QueueAppend q) (emit (PipelineResolve q) s1)))))"

definition doQueueAdd :: "string list \<Rightarrow> (string \<times> string) list \<Rightarrow> gam \<Rightarrow> bool \<times> gam" where
  "doQueueAdd parts items s =
     (if parts \<noteq> [] \<and> hd parts = ''track'' then
        (case queueSpotify parts items s of
           (True, s') \<Rightarrow> (True, s')
         | (False, s') \<Rightarrow>
             let f = scanTrackItems items noFields in
             if f_title f \<noteq> [] \<or> f_artist f \<noteq> [] \<or> f_album f \<noteq> [] then
               (case Query_get (f_artist f) (f_title f) (f_album f) s' of
                  (q, s1) \<Rightarrow>
                    let q = setResultHint (f_urlStr f) q in
                    (True, handleOpenTrack q (emit (PipelineResolve q) s1)))
             else queueUrls items s')
      else (False, s))"

definition handleOpenCommand :: "qurl \<Rightarrow> gam \<Rightarrow> bool \<times> gam" where
  "handleOpenCommand url s =
     (let parts = commandParts url in
      if parts = [] then (False, tLog NoSpecificTypeToOpen s)
      else doQueueAdd parts (queryItems url) s)"

text \<open>\<open>handleQueueCommand\<close> drops what \<open>doQueueAdd\<close> returns and falls through to its
  last line.\<close>

definition handleQueueCommand :: "qurl \<Rightarrow> gam \<Rightarrow> bool \<times> gam" where
  "handleQueueCommand url s =
     (let parts = commandParts url in
      if parts = [] then (False, tLog NoSpecificQueueCommand s)
      else if hd parts = ''add'' then (False, snd (doQueueAdd (drop 1 parts) (queryItems url) s))
      else (False, tLog OnlyQueueAddSupported s))"

definition handleSearchCommand :: "qurl \<Rightarrow> gam \<Rightarrow> bool \<times> gam" where
  "handleSearchCommand url s =
     (let query = (if hasQueryItem url ''artist'' then [queryItemValue url ''artist''] else [])
                @ (if hasQueryItem url ''album'' then [queryItemValue url ''album''] else [])
                @ (if hasQueryItem url ''title'' then [queryItemValue url ''title''] else []);
          queryStr = join_str '' '' query
      in if queryStr = [] then (False, s)
         else (True, emit (SetFilter queryStr) (emit ShowSuperCollection s)))"

section \<open>Stations and automatic playlists\<close>

text \<open>\<open>createControl\<close> followed by \<open>setInput\<close> and \<open>setMatch\<close>.\<close>

definition createControl :: "string \<Rightarrow> string \<Rightarrow> matchval \<Rightarrow> dyncontrol" where
  "createControl selected inp m = \<lparr>c_selectedType = selected, c_input = inp, c_match = m\<rparr>"

text \<open>The body of the loop over \<open>url.queryItems()\<close> in \<open>loadDynamicPlaylist\<close>: the chain of
  tests on the parameter name, in the order of the source; a name that passes none of
  them adds no control.\<close>

definition controlFor :: "string \<times> string \<Rightarrow> dyncontrol option" where
  "controlFor param =
     (if fst param = ''artist'' then Some (createControl ''Artist'' (snd param) (EnumPlus ArtistRadioType 0))
      else if fst param = ''artist_limitto'' then Some (createControl ''Artist'' (snd param) (EnumPlus ArtistType 0))
      else if fst param = ''description'' then Some (createControl ''Artist Description'' (snd param) (EnumPlus ArtistDescriptionType 0))
      else if fst param = ''variety'' then Some (createControl ''Variety'' (snd param) (EnumPlus Variety 0))
      else if startsWith (fst param) ''tempo'' then
        Some (createControl ''Tempo'' (snd param)
                (EnumPlus MinTempo (if endsWith (fst param) ''_max'' then - 1 else 0)))
      else if startsWith (fst param) ''duration'' then
        Some (createControl ''Duration'' (snd param)
                (EnumPlus MinDuration (if endsWith (fst param) ''_max'' then - 1 else 0)))
      else if startsWith (fst param) ''loudness'' then
        Some (createControl ''Loudness'' (snd param)
                (EnumPlus MinLoudness (if endsWith (fst param) ''_max'' then - 1 else 0)))
      else if startsWith (fst param) ''danceability'' then
        Some (createControl ''Danceability'' (snd param)
                (EnumPlus MinDanceability (if endsWith (fst param) ''_max'' then 1 else 0)))
      else if startsWith (fst param) ''energy'' then
        Some (createControl ''Energy'' (snd param)
                (EnumPlus MinEnergy (if endsWith (fst param) ''_max'' then 1 else 0)))
      else if startsWith (fst param) ''artist_familiarity'' then
        Some (createControl ''Artist Familiarity'' (snd param)
                (EnumPlus ArtistMinFamiliarity (if endsWith (fst param) ''_max'' then - 1 else 0)))
      else if startsWith (fst param) ''artist_hotttnesss'' then
        Some (createControl ''Artist Hotttnesss'' (snd param)
                (EnumPlus ArtistMinHotttnesss (if endsWith (fst param) ''_max'' then - 1 else 0)))
      else if startsWith (fst param) ''song_hotttnesss'' then
        Some (createControl ''Song Hotttnesss'' (snd param)
                (EnumPlus SongMinHotttnesss (if endsWith (fst param) ''_max'' then - 1 else 0)))
      else if startsWith (fst param) ''longitude'' then
        Some (createControl ''Longitude'' (snd param)
                (EnumPlus ArtistMinLongitude (if endsWith (fst param) ''_max'' then 1 else 0)))
      else if startsWith (fst param) ''latitude'' then
        Some (createControl ''Latitude'' (snd param)
                (EnumPlus ArtistMinLatitude (if endsWith (fst param) ''_max'' then 1 else 0)))
      else if fst param = ''key'' then Some (createControl ''Key'' (snd param) (EnumPlus Key 0))
      else if fst param = ''mode'' then Some (createControl ''Mode'' (snd param) (EnumPlus Mode 0))
      else if fst param = ''mood'' then Some (createControl ''Mood'' (snd param) (EnumPlus Mood 0))
      else if fst param = ''style'' then Some (createControl ''Style'' (snd param) (EnumPlus Style 0))
      else if fst param = ''song'' then Some (createControl ''Song'' (snd param) (EnumPlus SongRadioType 0))
      else None)"

fun buildControls :: "(string \<times> string) list \<Rightarrow> dyncontrol list" where
  "buildControls [] = []"
| "buildControls (param # rest) =
     (case controlFor param of
        None \<Rightarrow> buildControls rest
      | Some c \<Rightarrow> c # buildControls rest)"

text \<open>The last argument of \<open>CreateNewRevision\<close> tells whether the playlist's entries are
  passed along (the static case).\<close>

definition loadDynamicPlaylist :: "qurl \<Rightarrow> bool \<Rightarrow> gam \<Rightarrow> dynplaylist option \<times> gam" where
  "loadDynamicPlaylist url station s =
     (let parts = commandParts url in
      if parts = [] then (None, tLog NoSpecificStationCommand s)
      else if hd parts = ''create'' then
        (if \<not> hasQueryItem url ''title'' \<or> \<not> hasQueryItem url ''type''
         then (None, tLog StationCreateNeedsTitleAndType s)
         else
           let title = queryItemValue url ''title'';
               ptype = queryItemValue url ''type'';
               m = (if station then OnDemand else Static);
               s1 = emit (DynamicPlaylistCreate title m ptype) s;
               controls = buildControls (queryItems url);
               s2 = emit (CreateNewRevision ptype controls (m \<noteq> OnDemand)) s1
           in (Some \<lparr>pl_title = title, pl_type = ptype, pl_mode = m, pl_controls = controls\<rparr>,
               s2))
      else (None, s))"

definition handleStationCommand :: "qurl \<Rightarrow> gam \<Rightarrow> bool \<times> gam" where
  "handleStationCommand url s =
     (case loadDynamicPlaylist url True s of (pl, s') \<Rightarrow> (pl \<noteq> None, s'))"

definition handleAutoPlaylistCommand :: "qurl \<Rightarrow> gam \<Rightarrow> bool \<times> gam" where
  "handleAutoPlaylistCommand url s =
     (case loadDynamicPlaylist url False s of (pl, s') \<Rightarrow> (pl \<noteq> None, s'))"

section \<open>Play and bookmark\<close>

definition playSpotify :: "qurl \<Rightarrow> gam \<Rightarrow> bool \<times> gam" where
  "playSpotify url s =
     (if \<not> hasQueryItem url ''spotifyURI'' \<and> \<not> hasQueryItem url ''spotifyURL'' then (False, s)
      else
        let spotifyUrl = (if hasQueryItem url ''spotifyURI'' then queryItemValue url ''spotifyURI''
                          else queryItemValue url ''spotifyURL'')
        in (True, emit (SpotifyParserToPlay spotifyUrl) s))"

definition handlePlayCommand :: "qurl \<Rightarrow> gam \<Rightarrow> bool \<times> gam" where
  "handlePlayCommand url s =
     (let parts = commandParts url in
      if parts = [] then (False, tLog NoSpecificPlayCommand s)
      else if hd parts = ''track'' then
        (case playSpotify url s of
           (True, s') \<Rightarrow> (True, s')
         | (False, s') \<Rightarrow>
             let f = scanTrackItems (queryItems url) noFields in
             (case Query_get (f_artist f) (f_title f) (f_album f) s' of
                (q, s1) \<Rightarrow>
                  let q = setResultHint (f_urlStr f) q;
                      s2 = emit (PipelineResolve q) s1;
                      s3 = s2\<lparr>m_waitingToPlay := Some q\<rparr>
                  in (True, emit (ConnectResolvingFinished (q_id q)) s3)))
      else (False, s))"

definition spotifyToPlay :: "query \<Rightarrow> gam \<Rightarrow> gam" where
  "spotifyToPlay q s =
     emit (ConnectResolvingFinished (q_id q)) ((emit (PipelineResolve q) s)\<lparr>m_waitingToPlay := Some q\<rparr>)"

text \<open>\<open>doBookmark\<close> on a playlist with the given entries: one new revision with the entry
  for \<open>q\<close> appended, the playlist remembered in \<open>m_toShow\<close>, the waiting bookmark cleared.\<close>

definition doBookmark :: "query list \<Rightarrow> query \<Rightarrow> gam \<Rightarrow> gam" where
  "doBookmark entries q s =
     (emit ConnectRevisionLoaded (emit (BookmarksNewRevision (entries @ [q])) s))
       \<lparr>m_toShow := True, m_waitingToBookmark := None\<rparr>"

definition handleBookmarkCommand :: "qurl \<Rightarrow> gam \<Rightarrow> bool \<times> gam" where
  "handleBookmarkCommand url s =
     (let parts = commandParts url in
      if parts = [] then (False, tLog NoSpecificBookmarkCommand s)
      else if hd parts = ''track'' then
        (let f = scanTrackItems (queryItems url) noFields in
         case Query_get (f_artist f) (f_title f) (f_album f) s of
           (q, s1) \<Rightarrow>
             let q = setResultHint (f_urlStr f) q;
                 s2 = emit (PipelineResolve q) s1
             in (case bookmarksPlaylist s2 of
                   None \<Rightarrow>
                     (True, emit ConnectBookmarkPlaylistCreated
                              (emit CreateBookmarksPlaylist (s2\<lparr>m_waitingToBookmark := Some q\<rparr>)))
                 | Some entries \<Rightarrow> (True, doBookmark entries q s2)))
      else (False, s))"

text \<open>The slot asserts that a bookmark is waiting; \<open>None\<close> is the failed assertion.\<close>

definition bookmarkPlaylistCreated :: "query list \<Rightarrow> gam \<Rightarrow> gam option" where
  "bookmarkPlaylistCreated entries s =
     (case m_waitingToBookmark s of
        None \<Rightarrow> None
      | Some q \<Rightarrow> Some (doBookmark entries q s))"

definition showPlaylist :: "gam \<Rightarrow> gam" where
  "showPlaylist s = (if \<not> m_toShow s then s else (emit ViewShowBookmarks s)\<lparr>m_toShow := False\<rparr>)"

text \<open>
  The slot connected to \<open>resolvingFinished\<close>. \<open>sender\<close> is the identity of the query whose
  signal arrived and \<open>playable\<close> what \<open>m_waitingToPlay->playable()\<close> answers at that
  moment.
\<close>

definition waitingForResolved :: "nat \<Rightarrow> bool \<Rightarrow> gam \<Rightarrow> gam" where
  "waitingForResolved sender playable s =
     (if map_option q_id (m_waitingToPlay s) \<noteq> Some sender then s\<lparr>m_waitingToPlay := None\<rparr>
      else if m_waitingToPlay s \<noteq> None \<and> playable
      then (emit AudioEnginePlay s)\<lparr>m_waitingToPlay := None\<rparr>
      else s)"

section \<open>The entry point\<close>

definition parseTomahawkLink :: "string \<Rightarrow> gam \<Rightarrow> bool \<times> gam" where
  "parseTomahawkLink url s =
     (if contains url ''tomahawk://'' then
        (let cmd = replace_str ''%2B'' ''%20'' (mid 11 url);
             s1 = tLog (ParsingLinkCommand cmd) s;
             cmdType = hd (split_str CHR ''/'' cmd);
             u = fromEncoded cmd
         in
           if cmdType = ''load'' \<and> hasQueryItem u ''xspf''
           then (True, emit (XSPFLoad None (fromUserInput (queryItemValue u ''xspf''))) s1)
           else if cmdType = ''load'' \<and> hasQueryItem u ''jspf''
           then (True, emit (JSPFLoad (fromUserInput (queryItemValue u ''jspf''))) s1)
           else if cmdType = ''playlist'' then handlePlaylistCommand u s1
           else if cmdType = ''collection'' then handleCollectionCommand u s1
           else if cmdType = ''queue'' then handleQueueCommand u s1
           else if cmdType = ''station'' then handleStationCommand u s1
           else if cmdType = ''autoplaylist'' then handleAutoPlaylistCommand u s1
           else if cmdType = ''search'' then handleSearchCommand u s1
           else if cmdType = ''play'' then handlePlayCommand u s1
           else if cmdType = ''bookmark'' then handlePlayCommand u s1
           else if cmdType = ''open'' then handleOpenCommand u s1
           else (False, tLog (CommandNotKnown cmdType) s1))
      else (False, tLog NotATomahawkLink s))"

section \<open>Dropped and pasted text\<close>

definition handleTrackUrls :: "string \<Rightarrow> gam \<Rightarrow> gam" where
  "handleTrackUrls urls s =
     (if contains urls ''open.spotify.com/track'' \<or> contains urls ''spotify:track''
      then emit (SpotifyParserTracks (split_str (CHR 0x0A) urls)) s
      else if contains urls ''rdio.com''
      then emit (RdioParserTracks (split_str (CHR 0x0A) urls)) s
      else if contains urls ''bit.ly'' \<or> contains urls ''j.mp'' \<or> contains urls ''t.co''
              \<or> contains urls ''rd.io''
      then emit (ShortenedLinkParserNew (split_str (CHR 0x0A) urls)) s
      else s)"

text \<open>The slot that receives what a \<open>ShortenedLinkParser\<close> expanded.\<close>

definition expandedUrls :: "string list \<Rightarrow> gam \<Rightarrow> gam" where
  "expandedUrls urls s = handleTrackUrls (join_str [CHR 0x0A] urls) s"

section \<open>Notions used to state the properties\<close>

text \<open>The manager right after construction, with an idle engine and no bookmarks
  playlist yet.\<close>

definition newManager :: gam where
  "newManager = \<lparr>m_waitingToPlay = None, m_waitingToBookmark = None, m_toShow = False,
     effects = [], nextQuery = 0, isPlaying = False, bookmarksPlaylist = None\<rparr>"

text \<open>The command type \<open>parseTomahawkLink\<close> computes from its input: the first
  \<open>/\<close>-separated part of what follows the first eleven characters.\<close>

definition cmdTypeOf :: "string \<Rightarrow> string" where
  "cmdTypeOf url = hd (split_str CHR ''/'' (replace_str ''%2B'' ''%20'' (mid 11 url)))"

text \<open>
  What can happen to the slot \<open>m_waitingToPlay\<close> over time: a query is registered for
  playing (\<open>spotifyToPlay\<close>, which is also what the track branch of \<open>handlePlayCommand\<close>
  does with the query it has just made), or the \<open>resolvingFinished\<close> signal of some query
  reaches the slot \<open>waitingForResolved\<close>.
\<close>

datatype event = Register query | ResolvingFinished nat bool

fun step :: "event \<Rightarrow> gam \<Rightarrow> gam" where
  "step (Register q) s = spotifyToPlay q s"
| "step (ResolvingFinished sender playable) s = waitingForResolved sender playable s"

fun run :: "event list \<Rightarrow> gam \<Rightarrow> gam" where
  "run [] s = s"
| "run (e # es) s = run es (step e s)"

text \<open>The query of the last \<open>Register\<close> in a sequence of events (\<open>r\<close> when there is
  none).\<close>

fun lastRegistered :: "event list \<Rightarrow> query option \<Rightarrow> query option" where
  "lastRegistered [] r = r"
| "lastRegistered (Register q # es) r = lastRegistered es (Some q)"
| "lastRegistered (ResolvingFinished sender playable # es) r = lastRegistered es r"

text \<open>The value of the first, and of the last, item with a given key; empty when the key
  does not occur.\<close>

definition firstValue :: "string \<Rightarrow> (string \<times> string) list \<Rightarrow> string" where
  "firstValue k items = (case filter (\<lambda>p. fst p = k) items of [] \<Rightarrow> [] | p # ps \<Rightarrow> snd p)"

definition lastValue :: "string \<Rightarrow> (string \<times> string) list \<Rightarrow> string" where
  "lastValue k items =
     (case rev (filter (\<lambda>p. fst p = k) items) of [] \<Rightarrow> [] | p # ps \<Rightarrow> snd p)"

text \<open>The value of the last item whose key is \<open>spotifyURL\<close> or \<open>spotifyURI\<close>, and the
  query made of the last values of \<open>artist\<close>, \<open>title\<close>, \<open>album\<close> and \<open>url\<close>.\<close>

definition lastSpotifyValue :: "(string \<times> string) list \<Rightarrow> string" where
  "lastSpotifyValue items =
     (case rev (filter (\<lambda>p. fst p = ''spotifyURL'' \<or> fst p = ''spotifyURI'') items) of
        [] \<Rightarrow> [] | p # ps \<Rightarrow> snd p)"

definition lastFieldsQuery :: "(string \<times> string) list \<Rightarrow> nat \<Rightarrow> query" where
  "lastFieldsQuery items n =
     \<lparr>q_id = n, q_artist = lastValue ''artist'' items, q_track = lastValue ''title'' items,
      q_album = lastValue ''album'' items, q_resultHint = lastValue ''url'' items\<rparr>"

text \<open>
  The bound an enumerator stands for. The upper bounds are the enumerators for which
  \<open>copyPlaylistToClipboard\<close> appends \<open>_max\<close> to the parameter name; the lower bounds are
  their \<open>Min\<close> counterparts.
\<close>

datatype bound = Exact | Lower | Upper

definition boundOf :: "enumerator \<Rightarrow> bound" where
  "boundOf p =
     (if p \<in> {MaxTempo, MaxDuration, MaxLoudness, MaxDanceability, MaxEnergy,
               ArtistMaxFamiliarity, ArtistMaxHotttnesss, SongMaxHotttnesss,
               ArtistMaxLatitude, ArtistMaxLongitude} then Upper
      else if p \<in> {MinTempo, MinDuration, MinLoudness, MinDanceability, MinEnergy,
               ArtistMinFamiliarity, ArtistMinHotttnesss, SongMinHotttnesss,
               ArtistMinLatitude, ArtistMinLongitude} then Lower
      else Exact)"

text \<open>The integer a match value denotes under a numbering \<open>num\<close> of the enumerators.\<close>

fun matchValue :: "(enumerator \<Rightarrow> int) \<Rightarrow> matchval \<Rightarrow> int" where
  "matchValue num (EnumPlus p extra) = num p + extra"

text \<open>The continuous attributes: parameter name, control type, the enumerators of the
  lower and of the upper bound, and the offset the source adds for a \<open>_max\<close> name.\<close>

definition rangeAttributes :: "(string \<times> string \<times> enumerator \<times> enumerator \<times> int) list" where
  "rangeAttributes =
     [(''tempo'', ''Tempo'', MinTempo, MaxTempo, - 1),
      (''duration'', ''Duration'', MinDuration, MaxDuration, - 1),
      (''loudness'', ''Loudness'', MinLoudness, MaxLoudness, - 1),
      (''danceability'', ''Danceability'', MinDanceability, MaxDanceability, 1),
      (''energy'', ''Energy'', MinEnergy, MaxEnergy, 1),
      (''artist_familiarity'', ''Artist Familiarity'', ArtistMinFamiliarity,
         ArtistMaxFamiliarity, - 1),
      (''artist_hotttnesss'', ''Artist Hotttnesss'', ArtistMinHotttnesss,
         ArtistMaxHotttnesss, - 1),
      (''song_hotttnesss'', ''Song Hotttnesss'', SongMinHotttnesss, SongMaxHotttnesss, - 1),
      (''longitude'', ''Longitude'', ArtistMinLongitude, ArtistMaxLongitude, 1),
      (''latitude'', ''Latitude'', ArtistMinLatitude, ArtistMaxLatitude, 1)]"

text \<open>The inputs of the examples: two queries by their identity and fields, a play
  command with the \<open>title\<close> key twice, a create command without filter parameters, and
  commands that repeat \<open>url\<close>, \<open>xspf\<close>, and \<open>title\<close> and \<open>tempo\<close>.\<close>

definition uprising :: query where
  "uprising = \<lparr>q_id = 0, q_artist = ''Muse'', q_track = ''Uprising'', q_album = [],
     q_resultHint = []\<rparr>"

definition starlight :: query where
  "starlight = \<lparr>q_id = 1, q_artist = ''Muse'', q_track = ''Starlight'', q_album = [],
     q_resultHint = []\<rparr>"

definition twoTitles :: qurl where
  "twoTitles = \<lparr>origin = [], path = ''play/track/'',
     queryItems = [(''title'', ''Uprising''), (''title'', ''Starlight'')]\<rparr>"

definition createMix :: qurl where
  "createMix = \<lparr>origin = [], path = ''station/create/'',
     queryItems = [(''title'', ''Mix''), (''type'', ''echonest'')]\<rparr>"

definition twoUrls :: qurl where
  "twoUrls = \<lparr>origin = [], path = ''open/track/'',
     queryItems = [(''url'', ''http://a/x.mp3''), (''url'', ''http://b/y.mp3'')]\<rparr>"

definition twoLists :: qurl where
  "twoLists = \<lparr>origin = [], path = ''playlist/import/'',
     queryItems = [(''xspf'', ''http://a/l.xspf''), (''xspf'', ''http://b/m.xspf'')]\<rparr>"

definition createTwice :: qurl where
  "createTwice = \<lparr>origin = [], path = ''station/create/'',
     queryItems = [(''title'', ''Mix''), (''type'', ''echonest''), (''title'', ''Other''),
       (''tempo'', ''120''), (''tempo'', ''90'')]\<rparr>"

section \<open>Properties\<close>

subsection \<open>Return value of the playlist, collection and queue commands\<close>

lemma handlePlaylistCommand_false: "fst (handlePlaylistCommand u s) = False"
  by (simp add: handlePlaylistCommand_def Let_def)

lemma handleCollectionCommand_false: "fst (handleCollectionCommand u s) = False"
  by (simp add: handleCollectionCommand_def Let_def)

lemma handleQueueCommand_false: "fst (handleQueueCommand u s) = False"
  by (simp add: handleQueueCommand_def Let_def)

text \<open>
  Claim C10. Whatever the input and the state, when the command type is \<open>playlist\<close>,
  \<open>collection\<close> or \<open>queue\<close> the entry point returns false: each of the three handlers
  ends in \<open>return false\<close> on every path, also on the paths that create a playlist, start
  an import or append to the queue.
\<close>

theorem playlist_collection_queue_return_false:
  "cmdTypeOf url \<in> {''playlist'', ''collection'', ''queue''}
   \<Longrightarrow> fst (parseTomahawkLink url s) = False"
  unfolding parseTomahawkLink_def cmdTypeOf_def Let_def
  by (auto simp: handlePlaylistCommand_false handleCollectionCommand_false
      handleQueueCommand_false)

text \<open>A queue command that is carried out (the query is resolved and appended to the
  queue) and still answered with false.\<close>

theorem playlist_collection_queue_return_false_witness:
  "cmdTypeOf ''tomahawk://queue/add/track/?title=Uprising''
     \<in> {''playlist'', ''collection'', ''queue''}
   \<and> fst (parseTomahawkLink ''tomahawk://queue/add/track/?title=Uprising'' newManager) = False
   \<and> QueueAppend \<lparr>q_id = 0, q_artist = [], q_track = ''Uprising'', q_album = [],
         q_resultHint = []\<rparr>
       \<in> set (effects (snd (parseTomahawkLink ''tomahawk://queue/add/track/?title=Uprising''
                              newManager)))"
proof -
  have h: "cmdTypeOf ''tomahawk://queue/add/track/?title=Uprising''
             \<in> {''playlist'', ''collection'', ''queue''}"
    by code_simp
  have e: "QueueAppend \<lparr>q_id = 0, q_artist = [], q_track = ''Uprising'', q_album = [],
              q_resultHint = []\<rparr>
           \<in> set (effects (snd (parseTomahawkLink ''tomahawk://queue/add/track/?title=Uprising''
                                  newManager)))"
    by code_simp
  show ?thesis
    using h e playlist_collection_queue_return_false [OF h, of newManager] by simp
qed

text \<open>The same for a playlist that is created and shown.\<close>

lemma playlist_new_creates_and_returns_false:
  "parseTomahawkLink ''tomahawk://playlist/new/?title=Mix'' newManager =
     (False, newManager\<lparr>effects := [Log (ParsingLinkCommand ''playlist/new/?title=Mix''),
        PlaylistCreate ''Mix'', ViewShowPlaylist ''Mix'']\<rparr>)"
  by code_simp

subsection \<open>The slot of the query waiting to be played\<close>

text \<open>The track branch of \<open>handlePlayCommand\<close> registers the query it builds exactly as
  \<open>spotifyToPlay\<close> registers the one it is given.\<close>

lemma handlePlayCommand_registers:
  assumes "commandParts url \<noteq> []" "hd (commandParts url) = ''track''"
    "\<not> hasQueryItem url ''spotifyURI''" "\<not> hasQueryItem url ''spotifyURL''"
  shows "handlePlayCommand url s =
     (True, spotifyToPlay
        \<lparr>q_id = nextQuery s, q_artist = f_artist (scanTrackItems (queryItems url) noFields),
          q_track = f_title (scanTrackItems (queryItems url) noFields),
          q_album = f_album (scanTrackItems (queryItems url) noFields),
          q_resultHint = f_urlStr (scanTrackItems (queryItems url) noFields)\<rparr>
        (s\<lparr>nextQuery := Suc (nextQuery s)\<rparr>))"
  using assms
  by (simp add: handlePlayCommand_def playSpotify_def Let_def Query_get_def setResultHint_def
      spotifyToPlay_def emit_def)

text \<open>Invariant: the slot is empty or holds the most recently registered query.\<close>

lemma waiting_is_last_registered:
  "m_waitingToPlay s = None \<or> m_waitingToPlay s = r \<Longrightarrow>
   m_waitingToPlay (run evs s) = None \<or> m_waitingToPlay (run evs s) = lastRegistered evs r"
proof (induction evs arbitrary: s r)
  case Nil
  then show ?case by simp
next
  case (Cons e es)
  show ?case
  proof (cases e)
    case (Register q)
    have "m_waitingToPlay (step e s) = Some q"
      using Register by (simp add: spotifyToPlay_def emit_def)
    then show ?thesis using Cons.IH [of "step e s" "Some q"] Register by simp
  next
    case (ResolvingFinished sender playable)
    have "m_waitingToPlay (step e s) = None \<or> m_waitingToPlay (step e s) = r"
      using Cons.prems ResolvingFinished by (auto simp: waitingForResolved_def emit_def)
    then show ?thesis using Cons.IH [of "step e s" r] ResolvingFinished by simp
  qed
qed

lemma lastRegistered_any:
  "lastRegistered evs None = Some q \<Longrightarrow> lastRegistered evs r = Some q"
proof (induction evs arbitrary: r)
  case Nil
  then show ?case by simp
next
  case (Cons e es)
  then show ?case by (cases e) auto
qed

text \<open>
  Claim C3. After any sequence of registrations and completion signals, starting in any
  state, in which \<open>q\<close> is the query registered last, the completion signal of any other
  query makes no call at all, so it never starts playback: only the signal of the most
  recently registered query can reach \<open>AudioEngine::play\<close>, in whatever order the signals
  arrive. (What the stale signal does to the slot itself is the subject of claim C4.)
\<close>

theorem superseded_callback_never_plays:
  assumes "lastRegistered evs None = Some q" and "sender \<noteq> q_id q"
  shows "effects (waitingForResolved sender playable (run evs s)) = effects (run evs s)"
proof -
  have "lastRegistered evs (m_waitingToPlay s) = Some q"
    using assms(1) by (rule lastRegistered_any)
  then have "m_waitingToPlay (run evs s) = None \<or> m_waitingToPlay (run evs s) = Some q"
    using waiting_is_last_registered [of s "m_waitingToPlay s" evs] by simp
  then have "map_option q_id (m_waitingToPlay (run evs s)) \<noteq> Some sender"
    using assms(2) by auto
  then show ?thesis by (simp add: waitingForResolved_def)
qed

theorem superseded_callback_never_plays_witness:
  "lastRegistered [Register uprising, Register starlight] None = Some starlight
   \<and> (0::nat) \<noteq> q_id starlight
   \<and> effects (waitingForResolved 0 True (run [Register uprising, Register starlight] newManager))
     = effects (run [Register uprising, Register starlight] newManager)"
proof -
  have h1: "lastRegistered [Register uprising, Register starlight] None = Some starlight"
    by simp
  have h2: "(0::nat) \<noteq> q_id starlight"
    by (simp add: starlight_def)
  from superseded_callback_never_plays [OF h1 h2, of True newManager] h1 h2
  show ?thesis by blast
qed

text \<open>The same for two play commands that arrive as links: the query of the first gets
  the identity \<open>nextQuery s\<close>, and its completion signal, arriving after the second
  command, makes no call.\<close>

lemma two_play_commands_then_stale_callback:
  assumes "commandParts u1 \<noteq> []" "hd (commandParts u1) = ''track''"
    "\<not> hasQueryItem u1 ''spotifyURI''" "\<not> hasQueryItem u1 ''spotifyURL''"
    "commandParts u2 \<noteq> []" "hd (commandParts u2) = ''track''"
    "\<not> hasQueryItem u2 ''spotifyURI''" "\<not> hasQueryItem u2 ''spotifyURL''"
  shows "map_option q_id (m_waitingToPlay (snd (handlePlayCommand u1 s))) = Some (nextQuery s)
       \<and> effects (waitingForResolved (nextQuery s) playable
            (snd (handlePlayCommand u2 (snd (handlePlayCommand u1 s)))))
         = effects (snd (handlePlayCommand u2 (snd (handlePlayCommand u1 s))))"
  using assms
  by (simp add: handlePlayCommand_registers spotifyToPlay_def emit_def waitingForResolved_def)

text \<open>
  Claim C4, as the code has it. A completion signal whose sender is not the query in the
  slot triggers no action and changes nothing but the slot, which it empties; the query
  that was registered there is forgotten, and whatever signal comes next (that of the
  forgotten query too) finds the slot empty and does nothing either.
\<close>

theorem stale_callback_clears_slot:
  assumes "map_option q_id (m_waitingToPlay s) \<noteq> Some sender"
  shows "waitingForResolved sender playable s = s\<lparr>m_waitingToPlay := None\<rparr>
       \<and> waitingForResolved sender' playable' (waitingForResolved sender playable s)
           = s\<lparr>m_waitingToPlay := None\<rparr>"
  using assms by (simp add: waitingForResolved_def)

theorem stale_callback_clears_slot_witness:
  "map_option q_id (m_waitingToPlay (spotifyToPlay starlight (spotifyToPlay uprising newManager))) \<noteq> Some 0
   \<and> waitingForResolved 0 True (spotifyToPlay starlight (spotifyToPlay uprising newManager))
       = (spotifyToPlay starlight (spotifyToPlay uprising newManager))\<lparr>m_waitingToPlay := None\<rparr>
   \<and> waitingForResolved 1 True
         (waitingForResolved 0 True (spotifyToPlay starlight (spotifyToPlay uprising newManager)))
       = (spotifyToPlay starlight (spotifyToPlay uprising newManager))\<lparr>m_waitingToPlay := None\<rparr>"
proof -
  have h: "map_option q_id (m_waitingToPlay (spotifyToPlay starlight (spotifyToPlay uprising newManager)))
             \<noteq> Some 0"
    by (simp add: spotifyToPlay_def emit_def starlight_def)
  from stale_callback_clears_slot [OF h, of True 1 True] h show ?thesis by blast
qed

text \<open>The claim as stated fails: two queries are registered, the signal of the first one
  arrives, and the slot no longer holds the second.\<close>

theorem stale_callback_counterexample:
  "m_waitingToPlay (spotifyToPlay starlight (spotifyToPlay uprising newManager)) = Some starlight
   \<and> m_waitingToPlay
       (waitingForResolved 0 True (spotifyToPlay starlight (spotifyToPlay uprising newManager))) = None"
  by (simp add: spotifyToPlay_def waitingForResolved_def emit_def newManager_def starlight_def)

subsection \<open>Repeated parameter keys\<close>

lemma scan_title:
  "f_title (scanTrackItems items f) =
     (case rev (filter (\<lambda>p. fst p = ''title'') items) of [] \<Rightarrow> f_title f | p # ps \<Rightarrow> snd p)"
  by (induction items arbitrary: f) (auto split: list.splits)

lemma scan_artist:
  "f_artist (scanTrackItems items f) =
     (case rev (filter (\<lambda>p. fst p = ''artist'') items) of [] \<Rightarrow> f_artist f | p # ps \<Rightarrow> snd p)"
  by (induction items arbitrary: f) (auto split: list.splits)

lemma scan_album:
  "f_album (scanTrackItems items f) =
     (case rev (filter (\<lambda>p. fst p = ''album'') items) of [] \<Rightarrow> f_album f | p # ps \<Rightarrow> snd p)"
  by (induction items arbitrary: f) (auto split: list.splits)

lemma scan_url:
  "f_urlStr (scanTrackItems items f) =
     (case rev (filter (\<lambda>p. fst p = ''url'') items) of [] \<Rightarrow> f_urlStr f | p # ps \<Rightarrow> snd p)"
  by (induction items arbitrary: f) (auto split: list.splits)

lemma scan_last:
  "f_title (scanTrackItems items noFields) = lastValue ''title'' items"
  "f_artist (scanTrackItems items noFields) = lastValue ''artist'' items"
  "f_album (scanTrackItems items noFields) = lastValue ''album'' items"
  "f_urlStr (scanTrackItems items noFields) = lastValue ''url'' items"
  by (simp_all add: scan_title scan_artist scan_album scan_url lastValue_def noFields_def
      split: list.splits)

lemma scanSpotify_last:
  "scanSpotifyItems items u =
     (case rev (filter (\<lambda>p. fst p = ''spotifyURL'' \<or> fst p = ''spotifyURI'') items) of
        [] \<Rightarrow> u | p # ps \<Rightarrow> snd p)"
  by (induction items arbitrary: u) (auto split: list.splits)

lemma scanSpotify_lastSpotifyValue: "scanSpotifyItems items [] = lastSpotifyValue items"
  by (simp add: scanSpotify_last lastSpotifyValue_def)

lemma queryItemValue_first: "queryItemValue url k = firstValue k (queryItems url)"
proof -
  have "(case map_of items k of None \<Rightarrow> [] | Some v \<Rightarrow> v) = firstValue k items"
    for items :: "(string \<times> string) list"
    by (induction items) (auto simp: firstValue_def)
  then show ?thesis by (simp add: queryItemValue_def)
qed

lemma firstValue_absent: "\<not> hasQueryItem w k \<Longrightarrow> firstValue k (queryItems w) = []"
proof -
  assume "\<not> hasQueryItem w k"
  then have "filter (\<lambda>p. fst p = k) (queryItems w) = []"
    by (auto simp: hasQueryItem_def filter_empty_conv)
  then show ?thesis by (simp add: firstValue_def)
qed

text \<open>The handlers that loop over the items and assign.\<close>

lemma handlePlayCommand_occurrences:
  assumes "commandParts u \<noteq> []" and "hd (commandParts u) = ''track''"
  shows "handlePlayCommand u s =
     (if hasQueryItem u ''spotifyURI''
      then (True, emit (SpotifyParserToPlay (firstValue ''spotifyURI'' (queryItems u))) s)
      else if hasQueryItem u ''spotifyURL''
      then (True, emit (SpotifyParserToPlay (firstValue ''spotifyURL'' (queryItems u))) s)
      else (True, spotifyToPlay (lastFieldsQuery (queryItems u) (nextQuery s))
                    (s\<lparr>nextQuery := Suc (nextQuery s)\<rparr>)))"
  using assms
  by (simp add: handlePlayCommand_def playSpotify_def Let_def Query_get_def setResultHint_def
      spotifyToPlay_def emit_def scan_last lastFieldsQuery_def queryItemValue_first)

lemma handleBookmarkCommand_occurrences:
  assumes "commandParts u \<noteq> []" and "hd (commandParts u) = ''track''"
  shows "handleBookmarkCommand u s =
     (True,
      (case bookmarksPlaylist s of
         None \<Rightarrow>
           emit ConnectBookmarkPlaylistCreated (emit CreateBookmarksPlaylist
             ((emit (PipelineResolve (lastFieldsQuery (queryItems u) (nextQuery s)))
                 (s\<lparr>nextQuery := Suc (nextQuery s)\<rparr>))
               \<lparr>m_waitingToBookmark := Some (lastFieldsQuery (queryItems u) (nextQuery s))\<rparr>))
       | Some entries \<Rightarrow>
           doBookmark entries (lastFieldsQuery (queryItems u) (nextQuery s))
             (emit (PipelineResolve (lastFieldsQuery (queryItems u) (nextQuery s)))
                (s\<lparr>nextQuery := Suc (nextQuery s)\<rparr>))))"
  using assms
  by (simp add: handleBookmarkCommand_def Let_def Query_get_def setResultHint_def emit_def
      scan_last lastFieldsQuery_def split: option.splits)

lemma queueSpotify_last:
  "queueSpotify parts items s =
     (if lastSpotifyValue items = [] then (False, s)
      else (True, emit (SpotifyParserToOpen (lastSpotifyValue items)) s))"
  by (simp add: queueSpotify_def openSpotifyLink_def scanSpotify_lastSpotifyValue)

text \<open>The second loop of \<open>doQueueAdd\<close> stops at the first \<open>url\<close> item: its result is that
  of the list that holds this item alone.\<close>

lemma queueUrls_first:
  "queueUrls items s =
     (if ''url'' \<in> set (map fst items) then queueUrls [(''url'', firstValue ''url'' items)] s
      else (False, s))"
proof (induction items)
  case Nil
  show ?case by simp
next
  case (Cons p rest)
  show ?case
  proof (cases "fst p = ''url''")
    case True
    then have "p = (''url'', snd p)" by (cases p) simp
    then show ?thesis using True by (simp add: firstValue_def Let_def)
  next
    case False
    then show ?thesis using Cons.IH by (simp add: firstValue_def)
  qed
qed

lemma doQueueAdd_occurrences:
  assumes "parts \<noteq> []" and "hd parts = ''track''"
  shows "doQueueAdd parts items s =
     (if lastSpotifyValue items \<noteq> []
      then (True, emit (SpotifyParserToOpen (lastSpotifyValue items)) s)
      else if lastValue ''title'' items \<noteq> [] \<or> lastValue ''artist'' items \<noteq> []
              \<or> lastValue ''album'' items \<noteq> []
      then (True, handleOpenTrack (lastFieldsQuery items (nextQuery s))
                    (emit (PipelineResolve (lastFieldsQuery items (nextQuery s)))
                       (s\<lparr>nextQuery := Suc (nextQuery s)\<rparr>)))
      else if ''url'' \<in> set (map fst items)
      then queueUrls [(''url'', firstValue ''url'' items)] s
      else (False, s))"
proof -
  have u: "queueUrls items s =
     (if ''url'' \<in> set (map fst items) then queueUrls [(''url'', firstValue ''url'' items)] s
      else (False, s))"
    by (rule queueUrls_first)
  show ?thesis
    using assms
    by (simp add: doQueueAdd_def queueSpotify_last Let_def scan_last Query_get_def
        setResultHint_def lastFieldsQuery_def u del: queueUrls.simps)
qed

text \<open>The handlers that read with \<open>queryItemValue\<close>.\<close>

lemma handleSearchCommand_first:
  "handleSearchCommand w s =
     (let queryStr = join_str '' '' (map (\<lambda>k. firstValue k (queryItems w))
                        (filter (hasQueryItem w) [''artist'', ''album'', ''title'']))
      in if queryStr = [] then (False, s)
         else (True, emit (SetFilter queryStr) (emit ShowSuperCollection s)))"
  by (simp add: handleSearchCommand_def Let_def queryItemValue_first)

lemma handlePlaylistCommand_import_first:
  assumes "commandParts w \<noteq> []" and "hd (commandParts w) = ''import''"
    and "hasQueryItem w ''xspf''"
  shows "handlePlaylistCommand w s =
           (False, emit (XSPFLoad (Some (firstValue ''title'' (queryItems w)))
                           (firstValue ''xspf'' (queryItems w))) s)"
  using assms firstValue_absent [of w "''title''"]
  by (simp add: handlePlaylistCommand_def Let_def queryItemValue_first)

lemma handlePlaylistCommand_new_first:
  assumes "commandParts w \<noteq> []" and "hd (commandParts w) = ''new''"
    and "hasQueryItem w ''title''"
  shows "handlePlaylistCommand w s =
           (False, emit (ViewShowPlaylist (firstValue ''title'' (queryItems w)))
                     (emit (PlaylistCreate (firstValue ''title'' (queryItems w))) s))"
  using assms by (simp add: handlePlaylistCommand_def Let_def queryItemValue_first)

lemma loadDynamicPlaylist_first:
  assumes "commandParts w \<noteq> []" and "hd (commandParts w) = ''create''"
    and "hasQueryItem w ''title''" and "hasQueryItem w ''type''"
  shows "effects (snd (loadDynamicPlaylist w station s)) =
           effects s @
             [DynamicPlaylistCreate (firstValue ''title'' (queryItems w))
                (if station then OnDemand else Static) (firstValue ''type'' (queryItems w)),
              CreateNewRevision (firstValue ''type'' (queryItems w))
                (buildControls (queryItems w)) (\<not> station)]"
  using assms
  by (simp add: loadDynamicPlaylist_def Let_def emit_def queryItemValue_first)

lemma legacy_load_first:
  assumes "contains url ''tomahawk://''" and "cmdTypeOf url = ''load''"
  shows "parseTomahawkLink url s =
     (let cmd = replace_str ''%2B'' ''%20'' (mid 11 url);
          s1 = tLog (ParsingLinkCommand cmd) s
      in if hasQueryItem (fromEncoded cmd) ''xspf''
         then (True, emit (XSPFLoad None
                 (fromUserInput (firstValue ''xspf'' (queryItems (fromEncoded cmd))))) s1)
         else if hasQueryItem (fromEncoded cmd) ''jspf''
         then (True, emit (JSPFLoad
                 (fromUserInput (firstValue ''jspf'' (queryItems (fromEncoded cmd))))) s1)
         else (False, tLog (CommandNotKnown ''load'') s1))"
  using assms
  by (simp add: parseTomahawkLink_def cmdTypeOf_def Let_def queryItemValue_first)

text \<open>The loop over the filter parameters drops nothing.\<close>

lemma buildControls_keeps_all:
  "buildControls items = map (the \<circ> controlFor) (filter (\<lambda>p. controlFor p \<noteq> None) items)"
  by (induction items) (auto split: option.splits)

text \<open>
  Claim C5, as the code has it. Which occurrence of a repeated key is used depends on how
  the handler reads it.
  \<^item> The handlers that read with \<open>queryItemValue\<close> use the first occurrence and drop the
    later ones: the search command (\<open>artist\<close>, \<open>album\<close>, \<open>title\<close>), playlist import
    (\<open>xspf\<close>, \<open>title\<close>) and new (\<open>title\<close>), station and automatic playlist creation
    (\<open>title\<close>, \<open>type\<close>), the legacy \<open>load\<close> alias (\<open>xspf\<close>, \<open>jspf\<close>) and the Spotify
    branch of the play command (\<open>spotifyURI\<close>, else \<open>spotifyURL\<close>).
  \<^item> The handlers that loop over the items and assign use the last occurrence and drop
    the earlier ones: \<open>handlePlayCommand\<close> and \<open>handleBookmarkCommand\<close> for \<open>title\<close>,
    \<open>artist\<close>, \<open>album\<close> and \<open>url\<close>; \<open>queueSpotify\<close> for the last item that is a
    \<open>spotifyURL\<close> or a \<open>spotifyURI\<close>; \<open>doQueueAdd\<close>, when that Spotify value is empty,
    for \<open>title\<close>, \<open>artist\<close>, \<open>album\<close> and \<open>url\<close>, provided the last value of \<open>title\<close>,
    of \<open>artist\<close> or of \<open>album\<close> is not empty.
  \<^item> When these three are all empty, \<open>doQueueAdd\<close> uses the first \<open>url\<close> item and drops
    the later ones.
  \<^item> The loop over the filter parameters of a station drops nothing: every occurrence
    that matches adds its own control.
\<close>

theorem occurrence_used_by_each_handler:
  assumes "commandParts u \<noteq> []" and "hd (commandParts u) = ''track''"
  shows
    "handlePlayCommand u s =
       (if hasQueryItem u ''spotifyURI''
        then (True, emit (SpotifyParserToPlay (firstValue ''spotifyURI'' (queryItems u))) s)
        else if hasQueryItem u ''spotifyURL''
        then (True, emit (SpotifyParserToPlay (firstValue ''spotifyURL'' (queryItems u))) s)
        else (True, spotifyToPlay (lastFieldsQuery (queryItems u) (nextQuery s))
                      (s\<lparr>nextQuery := Suc (nextQuery s)\<rparr>)))
     \<and> handleBookmarkCommand u s =
       (True,
        (case bookmarksPlaylist s of
           None \<Rightarrow>
             emit ConnectBookmarkPlaylistCreated (emit CreateBookmarksPlaylist
               ((emit (PipelineResolve (lastFieldsQuery (queryItems u) (nextQuery s)))
                   (s\<lparr>nextQuery := Suc (nextQuery s)\<rparr>))
                 \<lparr>m_waitingToBookmark := Some (lastFieldsQuery (queryItems u) (nextQuery s))\<rparr>))
         | Some entries \<Rightarrow>
             doBookmark entries (lastFieldsQuery (queryItems u) (nextQuery s))
               (emit (PipelineResolve (lastFieldsQuery (queryItems u) (nextQuery s)))
                  (s\<lparr>nextQuery := Suc (nextQuery s)\<rparr>))))
     \<and> doQueueAdd (commandParts u) (queryItems u) s =
       (if lastSpotifyValue (queryItems u) \<noteq> []
        then (True, emit (SpotifyParserToOpen (lastSpotifyValue (queryItems u))) s)
        else if lastValue ''title'' (queryItems u) \<noteq> [] \<or> lastValue ''artist'' (queryItems u) \<noteq> []
                \<or> lastValue ''album'' (queryItems u) \<noteq> []
        then (True, handleOpenTrack (lastFieldsQuery (queryItems u) (nextQuery s))
                      (emit (PipelineResolve (lastFieldsQuery (queryItems u) (nextQuery s)))
                         (s\<lparr>nextQuery := Suc (nextQuery s)\<rparr>)))
        else if hasQueryItem u ''url''
        then queueUrls [(''url'', firstValue ''url'' (queryItems u))] s
        else (False, s))
     \<and> queueSpotify (commandParts u) (queryItems u) s =
       (if lastSpotifyValue (queryItems u) = [] then (False, s)
        else (True, emit (SpotifyParserToOpen (lastSpotifyValue (queryItems u))) s))
     \<and> handleSearchCommand w s =
       (let queryStr = join_str '' '' (map (\<lambda>k. firstValue k (queryItems w))
                          (filter (hasQueryItem w) [''artist'', ''album'', ''title'']))
        in if queryStr = [] then (False, s)
           else (True, emit (SetFilter queryStr) (emit ShowSuperCollection s)))
     \<and> (commandParts w \<noteq> [] \<and> hd (commandParts w) = ''import'' \<and> hasQueryItem w ''xspf'' \<longrightarrow>
          handlePlaylistCommand w s =
            (False, emit (XSPFLoad (Some (firstValue ''title'' (queryItems w)))
                            (firstValue ''xspf'' (queryItems w))) s))
     \<and> (commandParts w \<noteq> [] \<and> hd (commandParts w) = ''new'' \<and> hasQueryItem w ''title'' \<longrightarrow>
          handlePlaylistCommand w s =
            (False, emit (ViewShowPlaylist (firstValue ''title'' (queryItems w)))
                      (emit (PlaylistCreate (firstValue ''title'' (queryItems w))) s)))
     \<and> (commandParts w \<noteq> [] \<and> hd (commandParts w) = ''create'' \<and> hasQueryItem w ''title''
          \<and> hasQueryItem w ''type'' \<longrightarrow>
          effects (snd (loadDynamicPlaylist w station s)) =
            effects s @
              [DynamicPlaylistCreate (firstValue ''title'' (queryItems w))
                 (if station then OnDemand else Static) (firstValue ''type'' (queryItems w)),
               CreateNewRevision (firstValue ''type'' (queryItems w))
                 (buildControls (queryItems w)) (\<not> station)])
     \<and> (contains url ''tomahawk://'' \<and> cmdTypeOf url = ''load'' \<longrightarrow>
          parseTomahawkLink url s =
            (let cmd = replace_str ''%2B'' ''%20'' (mid 11 url);
                 s1 = tLog (ParsingLinkCommand cmd) s
             in if hasQueryItem (fromEncoded cmd) ''xspf''
                then (True, emit (XSPFLoad None
                        (fromUserInput (firstValue ''xspf'' (queryItems (fromEncoded cmd))))) s1)
                else if hasQueryItem (fromEncoded cmd) ''jspf''
                then (True, emit (JSPFLoad
                        (fromUserInput (firstValue ''jspf'' (queryItems (fromEncoded cmd))))) s1)
                else (False, tLog (CommandNotKnown ''load'') s1)))
     \<and> buildControls items
         = map (the \<circ> controlFor) (filter (\<lambda>p. controlFor p \<noteq> None) items)"
proof -
  have q: "doQueueAdd (commandParts u) (queryItems u) s =
       (if lastSpotifyValue (queryItems u) \<noteq> []
        then (True, emit (SpotifyParserToOpen (lastSpotifyValue (queryItems u))) s)
        else if lastValue ''title'' (queryItems u) \<noteq> [] \<or> lastValue ''artist'' (queryItems u) \<noteq> []
                \<or> lastValue ''album'' (queryItems u) \<noteq> []
        then (True, handleOpenTrack (lastFieldsQuery (queryItems u) (nextQuery s))
                      (emit (PipelineResolve (lastFieldsQuery (queryItems u) (nextQuery s)))
                         (s\<lparr>nextQuery := Suc (nextQuery s)\<rparr>)))
        else if hasQueryItem u ''url''
        then queueUrls [(''url'', firstValue ''url'' (queryItems u))] s
        else (False, s))"
    unfolding hasQueryItem_def using assms by (rule doQueueAdd_occurrences)
  show ?thesis
    using handlePlayCommand_occurrences [OF assms, of s]
      handleBookmarkCommand_occurrences [OF assms, of s] q
      queueSpotify_last [of "commandParts u" "queryItems u" s]
      handleSearchCommand_first [of w s]
      handlePlaylistCommand_import_first [of w s] handlePlaylistCommand_new_first [of w s]
      loadDynamicPlaylist_first [of w station s] legacy_load_first [of url s]
      buildControls_keeps_all [of items]
    by blast
qed

theorem occurrence_used_by_each_handler_witness:
  "commandParts twoTitles \<noteq> [] \<and> hd (commandParts twoTitles) = ''track''
   \<and> handlePlayCommand twoTitles newManager
       = (True, spotifyToPlay (lastFieldsQuery (queryItems twoTitles) 0)
                  (newManager\<lparr>nextQuery := 1\<rparr>))
   \<and> q_track (lastFieldsQuery (queryItems twoTitles) 0) = ''Starlight''
   \<and> m_waitingToBookmark (snd (handleBookmarkCommand twoTitles newManager))
       = Some (lastFieldsQuery (queryItems twoTitles) 0)
   \<and> doQueueAdd (commandParts twoTitles) (queryItems twoTitles) newManager
       = (True, handleOpenTrack (lastFieldsQuery (queryItems twoTitles) 0)
                  (emit (PipelineResolve (lastFieldsQuery (queryItems twoTitles) 0))
                     (newManager\<lparr>nextQuery := 1\<rparr>)))
   \<and> queueSpotify (commandParts twoTitles) (queryItems twoTitles) newManager
       = (False, newManager)
   \<and> handleSearchCommand twoTitles newManager
       = (True, emit (SetFilter ''Uprising'') (emit ShowSuperCollection newManager))
   \<and> commandParts twoUrls \<noteq> [] \<and> hd (commandParts twoUrls) = ''track''
   \<and> doQueueAdd (commandParts twoUrls) (queryItems twoUrls) newManager
       = queueUrls [(''url'', ''http://a/x.mp3'')] newManager
   \<and> commandParts twoLists \<noteq> [] \<and> hd (commandParts twoLists) = ''import''
   \<and> hasQueryItem twoLists ''xspf''
   \<and> handlePlaylistCommand twoLists newManager
       = (False, emit (XSPFLoad (Some []) ''http://a/l.xspf'') newManager)
   \<and> commandParts (twoTitles\<lparr>path := ''playlist/new/''\<rparr>) \<noteq> []
   \<and> hd (commandParts (twoTitles\<lparr>path := ''playlist/new/''\<rparr>)) = ''new''
   \<and> hasQueryItem (twoTitles\<lparr>path := ''playlist/new/''\<rparr>) ''title''
   \<and> handlePlaylistCommand (twoTitles\<lparr>path := ''playlist/new/''\<rparr>) newManager
       = (False, emit (ViewShowPlaylist ''Uprising'') (emit (PlaylistCreate ''Uprising'') newManager))
   \<and> commandParts createTwice \<noteq> [] \<and> hd (commandParts createTwice) = ''create''
   \<and> hasQueryItem createTwice ''title'' \<and> hasQueryItem createTwice ''type''
   \<and> effects (snd (loadDynamicPlaylist createTwice True newManager))
       = [DynamicPlaylistCreate ''Mix'' OnDemand ''echonest'',
          CreateNewRevision ''echonest''
            [createControl ''Tempo'' ''120'' (EnumPlus MinTempo 0),
             createControl ''Tempo'' ''90'' (EnumPlus MinTempo 0)] False]
   \<and> contains ''tomahawk://load/?xspf=http://a/l.xspf&xspf=http://b/m.xspf'' ''tomahawk://''
   \<and> cmdTypeOf ''tomahawk://load/?xspf=http://a/l.xspf&xspf=http://b/m.xspf'' = ''load''
   \<and> parseTomahawkLink ''tomahawk://load/?xspf=http://a/l.xspf&xspf=http://b/m.xspf'' newManager
       = (True, emit (XSPFLoad None ''http://a/l.xspf'')
                  (tLog (ParsingLinkCommand ''load/?xspf=http://a/l.xspf&xspf=http://b/m.xspf'')
                     newManager))
   \<and> buildControls (queryItems createTwice)
       = [createControl ''Tempo'' ''120'' (EnumPlus MinTempo 0),
          createControl ''Tempo'' ''90'' (EnumPlus MinTempo 0)]"
proof -
  let ?load = "''tomahawk://load/?xspf=http://a/l.xspf&xspf=http://b/m.xspf''"
  let ?new = "twoTitles\<lparr>path := ''playlist/new/''\<rparr>"
  have t1: "commandParts twoTitles \<noteq> []"
    by code_simp
  have t2: "hd (commandParts twoTitles) = ''track''"
    by code_simp
  have u1: "commandParts twoUrls \<noteq> []"
    by code_simp
  have u2: "hd (commandParts twoUrls) = ''track''"
    by code_simp
  have i: "commandParts twoLists \<noteq> [] \<and> hd (commandParts twoLists) = ''import''
           \<and> hasQueryItem twoLists ''xspf''"
    by code_simp
  have n: "commandParts ?new \<noteq> [] \<and> hd (commandParts ?new) = ''new''
           \<and> hasQueryItem ?new ''title''"
    by code_simp
  have c: "commandParts createTwice \<noteq> [] \<and> hd (commandParts createTwice) = ''create''
           \<and> hasQueryItem createTwice ''title'' \<and> hasQueryItem createTwice ''type''"
    by code_simp
  have l: "contains ?load ''tomahawk://'' \<and> cmdTypeOf ?load = ''load''"
    by code_simp
  have v: "hasQueryItem twoTitles ''spotifyURI'' = False"
    "hasQueryItem twoTitles ''spotifyURL'' = False"
    "lastSpotifyValue (queryItems twoTitles) = []"
    "lastValue ''title'' (queryItems twoTitles) = ''Starlight''"
    "q_track (lastFieldsQuery (queryItems twoTitles) 0) = ''Starlight''"
    "join_str '' '' (map (\<lambda>k. firstValue k (queryItems twoTitles))
        (filter (hasQueryItem twoTitles) [''artist'', ''album'', ''title''])) = ''Uprising''"
    "lastSpotifyValue (queryItems twoUrls) = []"
    "lastValue ''title'' (queryItems twoUrls) = []"
    "lastValue ''artist'' (queryItems twoUrls) = []"
    "lastValue ''album'' (queryItems twoUrls) = []"
    "hasQueryItem twoUrls ''url'' = True"
    "firstValue ''url'' (queryItems twoUrls) = ''http://a/x.mp3''"
    "firstValue ''title'' (queryItems twoLists) = []"
    "firstValue ''xspf'' (queryItems twoLists) = ''http://a/l.xspf''"
    "firstValue ''title'' (queryItems ?new) = ''Uprising''"
    "firstValue ''title'' (queryItems createTwice) = ''Mix''"
    "firstValue ''type'' (queryItems createTwice) = ''echonest''"
    "buildControls (queryItems createTwice)
       = [createControl ''Tempo'' ''120'' (EnumPlus MinTempo 0),
          createControl ''Tempo'' ''90'' (EnumPlus MinTempo 0)]"
    "map (the \<circ> controlFor) (filter (\<lambda>p. controlFor p \<noteq> None) (queryItems createTwice))
       = [createControl ''Tempo'' ''120'' (EnumPlus MinTempo 0),
          createControl ''Tempo'' ''90'' (EnumPlus MinTempo 0)]"
    "replace_str ''%2B'' ''%20'' (mid 11 ?load) = ''load/?xspf=http://a/l.xspf&xspf=http://b/m.xspf''"
    "hasQueryItem (fromEncoded ''load/?xspf=http://a/l.xspf&xspf=http://b/m.xspf'') ''xspf'' = True"
    "fromUserInput (firstValue ''xspf''
        (queryItems (fromEncoded ''load/?xspf=http://a/l.xspf&xspf=http://b/m.xspf'')))
       = ''http://a/l.xspf''"
    "nextQuery newManager = 0" "bookmarksPlaylist newManager = None" "effects newManager = []"
    "firstValue ''title'' (queryItems twoTitles) = ''Uprising''"
    by code_simp+
  note A = occurrence_used_by_each_handler [OF t1 t2, of newManager twoTitles True ?load
      "queryItems createTwice"]
  note B = occurrence_used_by_each_handler [OF u1 u2, of newManager twoLists True ?load
      "queryItems createTwice"]
  note C = occurrence_used_by_each_handler [OF t1 t2, of newManager ?new True ?load
      "queryItems createTwice"]
  note D = occurrence_used_by_each_handler [OF t1 t2, of newManager createTwice True ?load
      "queryItems createTwice"]
  have a1: "handlePlayCommand twoTitles newManager
       = (True, spotifyToPlay (lastFieldsQuery (queryItems twoTitles) 0)
                  (newManager\<lparr>nextQuery := 1\<rparr>))"
    using A [THEN conjunct1] by (simp add: v)
  have a2: "m_waitingToBookmark (snd (handleBookmarkCommand twoTitles newManager))
       = Some (lastFieldsQuery (queryItems twoTitles) 0)"
    using A [THEN conjunct2, THEN conjunct1] by (simp add: v emit_def)
  have a3: "doQueueAdd (commandParts twoTitles) (queryItems twoTitles) newManager
       = (True, handleOpenTrack (lastFieldsQuery (queryItems twoTitles) 0)
                  (emit (PipelineResolve (lastFieldsQuery (queryItems twoTitles) 0))
                     (newManager\<lparr>nextQuery := 1\<rparr>)))"
    using A [THEN conjunct2, THEN conjunct2, THEN conjunct1] by (simp add: v)
  have a4: "queueSpotify (commandParts twoTitles) (queryItems twoTitles) newManager
       = (False, newManager)"
    using A [THEN conjunct2, THEN conjunct2, THEN conjunct2, THEN conjunct1] by (simp add: v)
  have a5: "handleSearchCommand twoTitles newManager
       = (True, emit (SetFilter ''Uprising'') (emit ShowSuperCollection newManager))"
    using A [THEN conjunct2, THEN conjunct2, THEN conjunct2, THEN conjunct2, THEN conjunct1]
    unfolding Let_def v(6) by simp
  have a9: "parseTomahawkLink ?load newManager
       = (True, emit (XSPFLoad None ''http://a/l.xspf'')
                  (tLog (ParsingLinkCommand ''load/?xspf=http://a/l.xspf&xspf=http://b/m.xspf'')
                     newManager))"
    using A [THEN conjunct2, THEN conjunct2, THEN conjunct2, THEN conjunct2, THEN conjunct2,
        THEN conjunct2, THEN conjunct2, THEN conjunct2, THEN conjunct1] l
    by (simp add: v Let_def)
  have b3: "doQueueAdd (commandParts twoUrls) (queryItems twoUrls) newManager
       = queueUrls [(''url'', ''http://a/x.mp3'')] newManager"
    using B [THEN conjunct2, THEN conjunct2, THEN conjunct1] by (simp add: v del: queueUrls.simps)
  have b6: "handlePlaylistCommand twoLists newManager
       = (False, emit (XSPFLoad (Some []) ''http://a/l.xspf'') newManager)"
    using B [THEN conjunct2, THEN conjunct2, THEN conjunct2, THEN conjunct2, THEN conjunct2,
        THEN conjunct1] i
    by (simp add: v)
  have c7: "handlePlaylistCommand ?new newManager
       = (False, emit (ViewShowPlaylist ''Uprising'') (emit (PlaylistCreate ''Uprising'') newManager))"
    using C [THEN conjunct2, THEN conjunct2, THEN conjunct2, THEN conjunct2, THEN conjunct2,
        THEN conjunct2, THEN conjunct1] n
    by (simp add: v)
  have d8: "effects (snd (loadDynamicPlaylist createTwice True newManager))
       = [DynamicPlaylistCreate ''Mix'' OnDemand ''echonest'',
          CreateNewRevision ''echonest''
            [createControl ''Tempo'' ''120'' (EnumPlus MinTempo 0),
             createControl ''Tempo'' ''90'' (EnumPlus MinTempo 0)] False]"
    using D [THEN conjunct2, THEN conjunct2, THEN conjunct2, THEN conjunct2, THEN conjunct2,
        THEN conjunct2, THEN conjunct2, THEN conjunct1] c
    by (simp add: v)
  show ?thesis
    using t1 t2 u1 u2 i n c l a1 a2 a3 a4 a5 a9 b3 b6 c7 d8 v(5) v(18) by blast
qed

text \<open>The claim as stated fails on the very handler it cites: with two \<open>title\<close> items
  the query \<open>handlePlayCommand\<close> registers carries the second title.\<close>

theorem first_occurrence_counterexample:
  "map_option q_track (m_waitingToPlay (snd (handlePlayCommand twoTitles newManager)))
     = Some ''Starlight''
   \<and> firstValue ''title'' (queryItems twoTitles) = ''Uprising''"
  by code_simp

subsection \<open>Station and autoplaylist creation\<close>

lemma buildControls_unmatched:
  "\<forall>p \<in> set items. controlFor p = None \<Longrightarrow> buildControls items = []"
  by (induction items) auto

lemma buildControls_skips:
  "controlFor p = None \<Longrightarrow> buildControls (xs @ p # ys) = buildControls (xs @ ys)"
  by (induction xs) (auto split: option.splits)

lemma controlFor_title_type:
  "controlFor (''title'', v) = None" "controlFor (''type'', v) = None"
  by (simp_all add: controlFor_def startsWith_def)

text \<open>
  Claim C9. For a \<open>create\<close> command of a station (\<open>station = True\<close>) or an automatic
  playlist: without \<open>title\<close> or without \<open>type\<close> the only thing that happens is the log
  entry, no playlist is made and the command is rejected; with both, the playlist is
  made and exactly one revision is committed, carrying the controls built from the
  parameters, and the command is accepted. A parameter whose name matches nothing adds
  no control (\<open>title\<close> and \<open>type\<close> are such names), so with no filter parameter the
  committed list is empty.
\<close>

theorem create_commits_one_revision:
  assumes "commandParts url \<noteq> []" and "hd (commandParts url) = ''create''"
  shows "effects (snd (loadDynamicPlaylist url station s)) =
           (if hasQueryItem url ''title'' \<and> hasQueryItem url ''type''
            then effects s @
              [DynamicPlaylistCreate (queryItemValue url ''title'')
                 (if station then OnDemand else Static) (queryItemValue url ''type''),
               CreateNewRevision (queryItemValue url ''type'') (buildControls (queryItems url))
                 (\<not> station)]
            else effects s @ [Log StationCreateNeedsTitleAndType])
       \<and> fst (handleStationCommand url s) = (hasQueryItem url ''title'' \<and> hasQueryItem url ''type'')
       \<and> fst (handleAutoPlaylistCommand url s)
           = (hasQueryItem url ''title'' \<and> hasQueryItem url ''type'')
       \<and> snd (handleStationCommand url s) = snd (loadDynamicPlaylist url True s)
       \<and> snd (handleAutoPlaylistCommand url s) = snd (loadDynamicPlaylist url False s)
       \<and> ((\<forall>p \<in> set (queryItems url). controlFor p = None)
            \<longrightarrow> buildControls (queryItems url) = [])
       \<and> controlFor (''title'', v) = None \<and> controlFor (''type'', v) = None
       \<and> (controlFor p = None \<longrightarrow> buildControls (xs @ p # ys) = buildControls (xs @ ys))"
  using assms
  by (simp add: loadDynamicPlaylist_def handleStationCommand_def handleAutoPlaylistCommand_def
      Let_def tLog_def emit_def buildControls_unmatched buildControls_skips
      controlFor_title_type)

theorem create_commits_one_revision_witness:
  "commandParts createMix \<noteq> [] \<and> hd (commandParts createMix) = ''create''
   \<and> effects (snd (loadDynamicPlaylist createMix True newManager)) =
       [DynamicPlaylistCreate ''Mix'' OnDemand ''echonest'', CreateNewRevision ''echonest'' [] False]
   \<and> fst (handleStationCommand createMix newManager)
   \<and> fst (handleAutoPlaylistCommand createMix newManager)
   \<and> snd (handleStationCommand createMix newManager)
       = snd (loadDynamicPlaylist createMix True newManager)
   \<and> snd (handleAutoPlaylistCommand createMix newManager)
       = snd (loadDynamicPlaylist createMix False newManager)
   \<and> list_all (\<lambda>p. controlFor p = None) (queryItems createMix)
   \<and> buildControls (queryItems createMix) = []
   \<and> controlFor (''title'', ''Mix'') = None \<and> controlFor (''type'', ''echonest'') = None
   \<and> controlFor (''foo'', ''bar'') = None
   \<and> buildControls ([(''tempo'', ''120'')] @ (''foo'', ''bar'') # [(''key'', ''3'')])
       = buildControls ([(''tempo'', ''120'')] @ [(''key'', ''3'')])"
proof -
  have h1: "commandParts createMix \<noteq> []"
    by code_simp
  have h2: "hd (commandParts createMix) = ''create''"
    by code_simp
  have h3: "\<forall>p \<in> set (queryItems createMix). controlFor p = None"
    by (simp add: createMix_def controlFor_title_type)
  have h4: "controlFor (''foo'', ''bar'') = None"
    by code_simp
  have v: "hasQueryItem createMix ''title'' \<and> hasQueryItem createMix ''type''
     \<and> queryItemValue createMix ''title'' = ''Mix'' \<and> queryItemValue createMix ''type'' = ''echonest''
     \<and> effects newManager = []"
    by code_simp
  from create_commits_one_revision [OF h1 h2, of True newManager "''Mix''" "(''foo'', ''bar'')"
      "[(''tempo'', ''120'')]" "[(''key'', ''3'')]"]
    create_commits_one_revision [OF h1 h2, of True newManager "''echonest''"] h1 h2 h3 h4 v
  show ?thesis by (simp add: list_all_iff)
qed

text \<open>The rejected case at a concrete command: only the log entry is added.\<close>

lemma create_without_type_is_rejected:
  "handleStationCommand
     \<lparr>origin = [], path = ''station/create/'', queryItems = [(''title'', ''Mix'')]\<rparr> newManager
   = (False, newManager\<lparr>effects := [Log StationCreateNeedsTitleAndType]\<rparr>)"
  by code_simp

subsection \<open>Bounds of the continuous attributes\<close>

lemma controlFor_bare:
  "controlFor (''tempo'', v) = Some (createControl ''Tempo'' v (EnumPlus MinTempo 0))"
  "controlFor (''duration'', v) = Some (createControl ''Duration'' v (EnumPlus MinDuration 0))"
  "controlFor (''loudness'', v) = Some (createControl ''Loudness'' v (EnumPlus MinLoudness 0))"
  "controlFor (''danceability'', v)
     = Some (createControl ''Danceability'' v (EnumPlus MinDanceability 0))"
  "controlFor (''energy'', v) = Some (createControl ''Energy'' v (EnumPlus MinEnergy 0))"
  "controlFor (''artist_familiarity'', v)
     = Some (createControl ''Artist Familiarity'' v (EnumPlus ArtistMinFamiliarity 0))"
  "controlFor (''artist_hotttnesss'', v)
     = Some (createControl ''Artist Hotttnesss'' v (EnumPlus ArtistMinHotttnesss 0))"
  "controlFor (''song_hotttnesss'', v)
     = Some (createControl ''Song Hotttnesss'' v (EnumPlus SongMinHotttnesss 0))"
  "controlFor (''longitude'', v)
     = Some (createControl ''Longitude'' v (EnumPlus ArtistMinLongitude 0))"
  "controlFor (''latitude'', v)
     = Some (createControl ''Latitude'' v (EnumPlus ArtistMinLatitude 0))"
  by (simp_all add: controlFor_def startsWith_def endsWith_def suffix_to_prefix)

lemma controlFor_max:
  "controlFor (''tempo_max'', v) = Some (createControl ''Tempo'' v (EnumPlus MinTempo (- 1)))"
  "controlFor (''duration_max'', v)
     = Some (createControl ''Duration'' v (EnumPlus MinDuration (- 1)))"
  "controlFor (''loudness_max'', v)
     = Some (createControl ''Loudness'' v (EnumPlus MinLoudness (- 1)))"
  "controlFor (''danceability_max'', v)
     = Some (createControl ''Danceability'' v (EnumPlus MinDanceability 1))"
  "controlFor (''energy_max'', v) = Some (createControl ''Energy'' v (EnumPlus MinEnergy 1))"
  "controlFor (''artist_familiarity_max'', v)
     = Some (createControl ''Artist Familiarity'' v (EnumPlus ArtistMinFamiliarity (- 1)))"
  "controlFor (''artist_hotttnesss_max'', v)
     = Some (createControl ''Artist Hotttnesss'' v (EnumPlus ArtistMinHotttnesss (- 1)))"
  "controlFor (''song_hotttnesss_max'', v)
     = Some (createControl ''Song Hotttnesss'' v (EnumPlus SongMinHotttnesss (- 1)))"
  "controlFor (''longitude_max'', v)
     = Some (createControl ''Longitude'' v (EnumPlus ArtistMinLongitude 1))"
  "controlFor (''latitude_max'', v)
     = Some (createControl ''Latitude'' v (EnumPlus ArtistMinLatitude 1))"
  by (simp_all add: controlFor_def startsWith_def endsWith_def suffix_to_prefix)

text \<open>
  Claim C6, as the code has it. For each of the ten continuous attributes the bare
  parameter name yields the attribute's \<open>Min\<close> enumerator, the lower bound; none is
  inverted. The \<open>_max\<close> name yields the enumerator next to it, at the attribute's offset:
  \<open>Min - 1\<close> for tempo, duration, loudness, artist familiarity, artist hotttnesss and
  song hotttnesss, \<open>Min + 1\<close> for danceability, energy, longitude and latitude. Under
  every numbering that has the attribute's \<open>Max\<close> enumerator at that offset from its
  \<open>Min\<close>, this is the \<open>Max\<close> enumerator, the upper bound, for all ten alike.
\<close>

theorem bare_name_lower_max_name_adjacent:
  assumes "(name, sel, mn, mx, off) \<in> set rangeAttributes"
  shows "controlFor (name, v) = Some (createControl sel v (EnumPlus mn 0))
       \<and> controlFor (name @ ''_max'', v) = Some (createControl sel v (EnumPlus mn off))
       \<and> boundOf mn = Lower \<and> boundOf mx = Upper
       \<and> (num mx = num mn + off \<longrightarrow> matchValue num (EnumPlus mn off) = num mx)"
proof -
  have b: "boundOf mn = Lower \<and> boundOf mx = Upper"
    using assms by (auto simp: rangeAttributes_def boundOf_def)
  have c: "controlFor (name, v) = Some (createControl sel v (EnumPlus mn 0))"
    using assms by (auto simp: rangeAttributes_def controlFor_bare)
  have d: "controlFor (name @ ''_max'', v) = Some (createControl sel v (EnumPlus mn off))"
    using assms by (auto simp: rangeAttributes_def controlFor_max)
  show ?thesis using b c d by simp
qed

theorem bare_name_lower_max_name_adjacent_witness:
  "(''danceability'', ''Danceability'', MinDanceability, MaxDanceability, 1)
     \<in> set rangeAttributes
   \<and> controlFor (''danceability'', ''0.2'')
       = Some (createControl ''Danceability'' ''0.2'' (EnumPlus MinDanceability 0))
   \<and> controlFor (''danceability_max'', ''0.2'')
       = Some (createControl ''Danceability'' ''0.2'' (EnumPlus MinDanceability 1))
   \<and> boundOf MinDanceability = Lower \<and> boundOf MaxDanceability = Upper
   \<and> (\<lambda>p. if p = MaxDanceability then 1 else 0) MaxDanceability
       = (\<lambda>p. if p = MaxDanceability then 1 else 0) MinDanceability + (1::int)
   \<and> matchValue (\<lambda>p. if p = MaxDanceability then 1 else 0) (EnumPlus MinDanceability 1)
       = (\<lambda>p. if p = MaxDanceability then 1 else 0) MaxDanceability"
proof -
  have h: "(''danceability'', ''Danceability'', MinDanceability, MaxDanceability, 1)
             \<in> set rangeAttributes"
    by (simp add: rangeAttributes_def)
  from bare_name_lower_max_name_adjacent [OF h, of "''0.2''"
      "\<lambda>p. if p = MaxDanceability then 1 else 0"] h
  show ?thesis by simp
qed

text \<open>The claim as stated fails at its own example and at the bare name: the control
  for \<open>danceability_max\<close> does not carry the lower-bound enumerator \<open>MinDanceability\<close>
  but the one after it, and the control for the bare \<open>danceability\<close> carries
  \<open>MinDanceability\<close> itself, a lower bound and not an upper one.\<close>

theorem inverted_polarity_counterexample:
  "buildControls [(''danceability_max'', ''0.2'')]
     = [createControl ''Danceability'' ''0.2'' (EnumPlus MinDanceability 1)]
   \<and> EnumPlus MinDanceability 1 \<noteq> EnumPlus MinDanceability 0
   \<and> buildControls [(''danceability'', ''0.2'')]
     = [createControl ''Danceability'' ''0.2'' (EnumPlus MinDanceability 0)]
   \<and> boundOf MinDanceability = Lower"
  by code_simp

subsection \<open>Expanded short links\<close>

text \<open>
  Claim C7, as the code has it. Expansion is not bounded to one level: \<open>expandedUrls\<close>
  hands the expanded URLs to \<open>handleTrackUrls\<close>, the classification of any pasted text.
  When the expanded text names a shortener domain and neither a Spotify track nor
  \<open>rdio.com\<close>, a further \<open>ShortenedLinkParser\<close> is started on it; the result is not
  empty, and nothing counts the levels.
\<close>

theorem expanded_shortener_is_expanded_again:
  assumes "t = join_str [CHR 0x0A] urls"
    and "contains t ''bit.ly'' \<or> contains t ''j.mp'' \<or> contains t ''t.co''
           \<or> contains t ''rd.io''"
    and "\<not> contains t ''open.spotify.com/track''" and "\<not> contains t ''spotify:track''"
    and "\<not> contains t ''rdio.com''"
  shows "expandedUrls urls s = emit (ShortenedLinkParserNew (split_str (CHR 0x0A) t)) s"
  using assms by (auto simp: expandedUrls_def handleTrackUrls_def)

theorem expanded_shortener_is_expanded_again_witness:
  "''http://bit.ly/abc'' = join_str [CHR 0x0A] [''http://bit.ly/abc'']
   \<and> contains ''http://bit.ly/abc'' ''bit.ly''
   \<and> \<not> contains ''http://bit.ly/abc'' ''open.spotify.com/track''
   \<and> \<not> contains ''http://bit.ly/abc'' ''spotify:track''
   \<and> \<not> contains ''http://bit.ly/abc'' ''rdio.com''
   \<and> expandedUrls [''http://bit.ly/abc''] newManager
       = emit (ShortenedLinkParserNew (split_str (CHR 0x0A) ''http://bit.ly/abc'')) newManager"
proof -
  have h1: "''http://bit.ly/abc'' = join_str [CHR 0x0A] [''http://bit.ly/abc'']"
    by simp
  have h2: "contains ''http://bit.ly/abc'' ''bit.ly''"
    by code_simp
  have h3: "\<not> contains ''http://bit.ly/abc'' ''open.spotify.com/track''"
    by code_simp
  have h4: "\<not> contains ''http://bit.ly/abc'' ''spotify:track''"
    by code_simp
  have h5: "\<not> contains ''http://bit.ly/abc'' ''rdio.com''"
    by code_simp
  from expanded_shortener_is_expanded_again [OF h1 disjI1 [OF h2] h3 h4 h5, of newManager]
    h1 h2 h3 h4 h5
  show ?thesis by blast
qed

text \<open>The claim as stated fails: an expanded URL that is itself a short link does not
  give an empty result, it starts the next expansion.\<close>

theorem second_expansion_counterexample:
  "effects (expandedUrls [''http://bit.ly/abc''] newManager)
     = [ShortenedLinkParserNew [''http://bit.ly/abc'']]"
  by code_simp

subsection \<open>Outbound links read back\<close>

lemma replace_single:
  "replace_str [c] rep s = concat (map (\<lambda>x. if x = c then rep else [x]) s)"
proof (induction s)
  case Nil
  show ?case by (simp add: replace_str.simps [of "[c]" rep "[]"])
next
  case (Cons x xs)
  show ?case using Cons.IH
    by (auto simp: replace_str.simps [of "[c]" rep "x # xs"])
qed

lemma hexDigit_not_colon: "hexDigit n \<noteq> CHR '':''"
proof -
  have "hexDigit n \<in> set ''0123456789ABCDEF''"
    unfolding hexDigit_def by (rule nth_mem) simp
  then show ?thesis by auto
qed

lemma percentByte_colon: "CHR '':'' \<in> set (percentByte ex inc c) \<Longrightarrow> c = CHR '':''"
  by (auto simp: percentByte_def hexDigit_not_colon hexDigit_not_colon [symmetric]
      split: if_splits)

lemma encodeQueryPart_colon: "CHR '':'' \<notin> set t \<Longrightarrow> CHR '':'' \<notin> set (encodeQueryPart t)"
  using percentByte_colon by (auto simp: encodeQueryPart_def toPercentEncoding_def)

lemma join_colon:
  "\<forall>x \<in> set xs. CHR '':'' \<notin> set x \<Longrightarrow> CHR '':'' \<notin> set (join_str ''&'' xs)"
  by (induction "''&''" xs rule: join_str.induct) auto

lemma encodedQuery_colon:
  "\<forall>p \<in> set items. CHR '':'' \<notin> set (fst p) \<and> CHR '':'' \<notin> set (snd p)
   \<Longrightarrow> CHR '':'' \<notin> set (encodedQuery items)"
  unfolding encodedQuery_def
  by (rule join_colon) (auto simp: encodeQueryPart_colon split: prod.splits)

lemma openLink_shape:
  "origin (openLink t a b) = ''http://toma.hk'' \<and> path (openLink t a b) = ''/open/track/''
   \<and> set (queryItems (openLink t a b)) \<subseteq> {(''title'', t), (''artist'', a), (''album'', b)}"
  by (auto simp: openLink_def Let_def addQueryItem_def hostname_def)

text \<open>The outbound text always starts with the web address of the link service.\<close>

lemma clipboardText_split:
  "clipboardText t a b = ''http://toma.hk/open/track/'' @
     concat (map (\<lambda>x. if x = CHR 0x27 then ''%27'' else [x])
       (if queryItems (openLink t a b) = [] then []
        else ''?'' @ encodedQuery (queryItems (openLink t a b))))"
  using openLink_shape [of t a b]
  by (simp add: clipboardText_def replace_single toEncoded_def)

lemma no_colon_no_scheme: "CHR '':'' \<notin> set r \<Longrightarrow> \<not> sublist ''tomahawk://'' r"
  using set_mono_sublist by fastforce

lemma prefixed_no_scheme:
  "CHR '':'' \<notin> set r \<Longrightarrow> \<not> sublist ''tomahawk://'' (''http://toma.hk/open/track/'' @ r)"
  by (simp add: sublist_Cons_right no_colon_no_scheme)

text \<open>Whatever the fields are, the command type read from an outbound text is what
  stands between its eleventh character and the next \<open>/\<close>.\<close>

lemma replace_2B_skip:
  "c \<noteq> CHR ''%'' \<Longrightarrow> replace_str ''%2B'' rep (c # s) = c # replace_str ''%2B'' rep s"
  by (simp add: replace_str.simps [of "''%2B''" rep "c # s"])

lemma cmdType_of_outbound: "cmdTypeOf (clipboardText t a b) = ''.hk''"
  by (simp add: cmdTypeOf_def clipboardText_split mid_def replace_2B_skip)

lemma outbound_always_false: "fst (parseTomahawkLink (clipboardText t a b) s) = False"
  using cmdType_of_outbound [of t a b]
  by (simp add: parseTomahawkLink_def cmdTypeOf_def Let_def)

lemma outbound_without_colon:
  assumes "CHR '':'' \<notin> set title" and "CHR '':'' \<notin> set artist" and "CHR '':'' \<notin> set album"
  shows "parseTomahawkLink (clipboardText title artist album) s
           = (False, tLog NotATomahawkLink s)"
proof -
  let ?items = "queryItems (openLink title artist album)"
  have "\<forall>p \<in> set ?items. CHR '':'' \<notin> set (fst p) \<and> CHR '':'' \<notin> set (snd p)"
    using openLink_shape [of title artist album] assms by auto
  then have q: "CHR '':'' \<notin> set (encodedQuery ?items)"
    by (rule encodedQuery_colon)
  have "CHR '':'' \<notin> set (concat (map (\<lambda>x. if x = CHR 0x27 then ''%27'' else [x])
       (if ?items = [] then [] else ''?'' @ encodedQuery ?items)))"
    using q by auto
  then have "\<not> contains (clipboardText title artist album) ''tomahawk://''"
    unfolding contains_def clipboardText_split by (rule prefixed_no_scheme)
  then show ?thesis by (simp add: parseTomahawkLink_def)
qed

text \<open>
  Claim C1, as the code has it. The text produced by encoding (\<open>openLink\<close>, written out
  as \<open>copyToClipboard\<close> does) is a web link under \<open>http://toma.hk/open/track/\<close>, not a
  \<open>tomahawk://\<close> link, so decoding it never succeeds: for every title, artist and album
  \<open>parseTomahawkLink\<close> returns false on it, and when none of the three contains a colon
  it rejects the text as not being a \<open>tomahawk://\<close> link, doing nothing but writing that
  to the log.
\<close>

theorem outbound_link_is_rejected:
  "fst (parseTomahawkLink (clipboardText title artist album) s) = False
   \<and> (CHR '':'' \<notin> set title \<and> CHR '':'' \<notin> set artist \<and> CHR '':'' \<notin> set album
        \<longrightarrow> parseTomahawkLink (clipboardText title artist album) s
              = (False, tLog NotATomahawkLink s))"
  using outbound_always_false outbound_without_colon by blast

theorem outbound_link_is_rejected_witness:
  "CHR '':'' \<notin> set ''It's Uprising'' \<and> CHR '':'' \<notin> set ''Muse'' \<and> CHR '':'' \<notin> set ''''
   \<and> clipboardText ''It's Uprising'' ''Muse'' ''''
       = ''http://toma.hk/open/track/?title=It%27s%20Uprising&artist=Muse''
   \<and> fst (parseTomahawkLink ''http://toma.hk/open/track/?title=It%27s%20Uprising&artist=Muse''
         newManager) = False
   \<and> parseTomahawkLink ''http://toma.hk/open/track/?title=It%27s%20Uprising&artist=Muse''
         newManager
       = (False, tLog NotATomahawkLink newManager)"
proof -
  have h1: "CHR '':'' \<notin> set ''It's Uprising''"
    by simp
  have h2: "CHR '':'' \<notin> set ''Muse''"
    by simp
  have h3: "CHR '':'' \<notin> set ''''"
    by simp
  have e: "clipboardText ''It's Uprising'' ''Muse'' ''''
             = ''http://toma.hk/open/track/?title=It%27s%20Uprising&artist=Muse''"
    by code_simp
  from outbound_link_is_rejected [of "''It's Uprising''" "''Muse''" "''''" newManager]
    h1 h2 h3 e
  show ?thesis by simp
qed

text \<open>The claim as stated fails: the link made for a title and an artist is not
  decoded.\<close>

theorem round_trip_counterexample:
  "clipboardText ''Uprising'' ''Muse'' '''' = ''http://toma.hk/open/track/?title=Uprising&artist=Muse''
   \<and> parseTomahawkLink (clipboardText ''Uprising'' ''Muse'' '''') newManager
       = (False, newManager\<lparr>effects := [Log NotATomahawkLink]\<rparr>)"
  by code_simp

subsection \<open>The bookmark command\<close>

lemma bookmark_is_dispatched_to_play:
  assumes "contains url ''tomahawk://''" and "cmdTypeOf url = ''bookmark''"
  shows "parseTomahawkLink url s =
           handlePlayCommand (fromEncoded (replace_str ''%2B'' ''%20'' (mid 11 url)))
             (tLog (ParsingLinkCommand (replace_str ''%2B'' ''%20'' (mid 11 url))) s)"
  using assms by (simp add: parseTomahawkLink_def cmdTypeOf_def Let_def)

text \<open>
  Claim C2. The entry point sends the command type \<open>bookmark\<close> to \<open>handlePlayCommand\<close>:
  at the link below the query is registered as waiting to be played, \<open>m_waitingToBookmark\<close>
  stays empty and the bookmarks playlist is neither created nor extended. The second
  half shows what \<open>handleBookmarkCommand\<close>, which nothing calls, does with the same
  command in the same state: it asks for the bookmarks playlist to be created and keeps
  the query waiting for it.
\<close>

theorem bookmark_link_only_plays:
  "parseTomahawkLink ''tomahawk://bookmark/track/?title=Uprising&artist=Muse'' newManager =
     (True, newManager
        \<lparr>m_waitingToPlay := Some uprising,
         effects := [Log (ParsingLinkCommand ''bookmark/track/?title=Uprising&artist=Muse''),
                     PipelineResolve uprising, ConnectResolvingFinished 0],
         nextQuery := 1\<rparr>)
   \<and> handleBookmarkCommand (fromEncoded ''bookmark/track/?title=Uprising&artist=Muse'')
       (tLog (ParsingLinkCommand ''bookmark/track/?title=Uprising&artist=Muse'') newManager) =
     (True, newManager
        \<lparr>m_waitingToBookmark := Some uprising,
         effects := [Log (ParsingLinkCommand ''bookmark/track/?title=Uprising&artist=Muse''),
                     PipelineResolve uprising, CreateBookmarksPlaylist, ConnectBookmarkPlaylistCreated],
         nextQuery := 1\<rparr>)"
  by code_simp

subsection \<open>The scheme test\<close>

lemma text_without_scheme_is_rejected:
  "\<not> contains url ''tomahawk://'' \<Longrightarrow> parseTomahawkLink url s = (False, tLog NotATomahawkLink s)"
  by (simp add: parseTomahawkLink_def)

text \<open>
  Claim C8. The entry point tests whether the scheme occurs anywhere in the input and
  then drops the first eleven characters, the length of the scheme. The input below does
  not begin with \<open>tomahawk://\<close>; it is not rejected: what follows its first eleven
  characters is taken as a \<open>play\<close> command, a query is registered for playing, and the
  result is true.
\<close>

theorem scheme_inside_is_accepted:
  "\<not> startsWith ''http://a.b/play/track/?title=tomahawk://'' ''tomahawk://''
   \<and> parseTomahawkLink ''http://a.b/play/track/?title=tomahawk://'' newManager =
     (True, newManager
        \<lparr>m_waitingToPlay := Some \<lparr>q_id = 0, q_artist = [], q_track = ''tomahawk://'', q_album = [], q_resultHint = []\<rparr>,
         effects := [Log (ParsingLinkCommand ''play/track/?title=tomahawk://''),
                     PipelineResolve \<lparr>q_id = 0, q_artist = [], q_track = ''tomahawk://'', q_album = [], q_resultHint = []\<rparr>, ConnectResolvingFinished 0],
         nextQuery := 1\<rparr>)"
  by code_simp

end
